theory Spec2Isabelle
  imports Complex_Main "HOL-Library.AList"
begin

section \<open>Python values, errors and the operations the agent uses on them\<close>

text \<open>
  The fundamental filter agent (\<^verbatim>\<open>stockbench/agents/fundamental_filter_agent.py\<close>) works on
  untyped JSON-like data: feature snapshots, configuration, prior decisions and the parsed
  answer of the classification service. A value is one of Python's JSON types. A dict keeps
  its insertion order, so it is an association list (looked up with \<open>map_of\<close>, written
  with \<open>AList.update\<close>, which overwrites in place or appends, as a Python dict does).
  Integers are unbounded. A float is a finite value, an infinity or NaN; a finite value is
  held as the rational it denotes (the two zeros are one value, which no comparison of the
  agent tells apart). Float arithmetic rounds, and the rounding is not written here: it is
  a field of the environment below.
\<close>

datatype pyfloat = Finite rat | PosInf | NegInf | NaN

datatype pyval =
    PNone
  | PBool bool
  | PInt int
  | PFloat pyfloat
  | PStr string
  | PList "pyval list"
  | PDict "(string \<times> pyval) list"

text \<open>A raised exception carries the text that \<^verbatim>\<open>str(e)\<close> gives.\<close>

datatype error =
    AttributeError string
  | TypeError string
  | ValueError string
  | KeyError string
  | UnboundLocalError string
  | OverflowError string
  | OtherError string

fun str_of_error :: "error \<Rightarrow> string" where
  "str_of_error (AttributeError m) = m"
| "str_of_error (TypeError m) = m"
| "str_of_error (ValueError m) = m"
| "str_of_error (KeyError m) = m"
| "str_of_error (UnboundLocalError m) = m"
| "str_of_error (OverflowError m) = m"
| "str_of_error (OtherError m) = m"

fun type_name :: "pyval \<Rightarrow> string" where
  "type_name PNone = ''NoneType''"
| "type_name (PBool b) = ''bool''"
| "type_name (PInt i) = ''int''"
| "type_name (PFloat r) = ''float''"
| "type_name (PStr s) = ''str''"
| "type_name (PList xs) = ''list''"
| "type_name (PDict kvs) = ''dict''"

text \<open>A text between single quotes, as Python's messages print type and attribute names.\<close>

definition quoted :: "string \<Rightarrow> string" where
  "quoted s = CHR 0x27 # s @ [CHR 0x27]"

text \<open>Truth value of an object, as \<^verbatim>\<open>if x\<close> and \<^verbatim>\<open>not x\<close> test it.\<close>

fun truthy :: "pyval \<Rightarrow> bool" where
  "truthy PNone = False"
| "truthy (PBool b) = b"
| "truthy (PInt i) = (i \<noteq> 0)"
| "truthy (PFloat f) = (f \<noteq> Finite 0)"
| "truthy (PStr s) = (s \<noteq> [])"
| "truthy (PList xs) = (xs \<noteq> [])"
| "truthy (PDict kvs) = (kvs \<noteq> [])"

fun is_dict :: "pyval \<Rightarrow> bool" where
  "is_dict (PDict kvs) = True"
| "is_dict v = False"

fun is_list :: "pyval \<Rightarrow> bool" where
  "is_list (PList xs) = True"
| "is_list v = False"

text \<open>Sequencing of steps that may raise: the first exception ends the computation.\<close>

fun bind_err :: "error + 'a \<Rightarrow> ('a \<Rightarrow> error + 'b) \<Rightarrow> error + 'b" where
  "bind_err (Inl e) f = Inl e"
| "bind_err (Inr x) f = f x"

text \<open>\<^verbatim>\<open>d.get(k, default)\<close> on a dict, and on an arbitrary object (only a dict has \<^verbatim>\<open>get\<close>).\<close>

definition dict_get :: "(string \<times> pyval) list \<Rightarrow> string \<Rightarrow> pyval \<Rightarrow> pyval" where
  "dict_get kvs k d = (case map_of kvs k of None \<Rightarrow> d | Some v \<Rightarrow> v)"

fun py_get :: "pyval \<Rightarrow> string \<Rightarrow> pyval \<Rightarrow> error + pyval" where
  "py_get (PDict kvs) k d = Inr (dict_get kvs k d)"
| "py_get v k d = Inl (AttributeError (quoted (type_name v) @ '' object has no attribute '' @ quoted ''get''))"

text \<open>\<^verbatim>\<open>x.items()\<close>.\<close>

fun py_items :: "pyval \<Rightarrow> error + (string \<times> pyval) list" where
  "py_items (PDict kvs) = Inr kvs"
| "py_items v = Inl (AttributeError (quoted (type_name v) @ '' object has no attribute '' @ quoted ''items''))"

text \<open>
  \<^verbatim>\<open>x == 0.0\<close>: numbers compare by value, \<^verbatim>\<open>False\<close> is the integer 0, anything else differs.
  \<^verbatim>\<open>x > 0\<close>: defined on numbers (and booleans), false for NaN, a TypeError on everything
  else. Neither rounds: Python compares an integer with a float exactly.
\<close>

fun py_eq_zero :: "pyval \<Rightarrow> bool" where
  "py_eq_zero (PInt i) = (i = 0)"
| "py_eq_zero (PFloat f) = (f = Finite 0)"
| "py_eq_zero (PBool b) = (\<not> b)"
| "py_eq_zero v = False"

fun float_gt_zero :: "pyfloat \<Rightarrow> bool" where
  "float_gt_zero (Finite r) = (0 < r)"
| "float_gt_zero PosInf = True"
| "float_gt_zero NegInf = False"
| "float_gt_zero NaN = False"

fun py_gt_zero :: "pyval \<Rightarrow> error + bool" where
  "py_gt_zero (PInt i) = Inr (0 < i)"
| "py_gt_zero (PFloat f) = Inr (float_gt_zero f)"
| "py_gt_zero (PBool b) = Inr b"
| "py_gt_zero v = Inl (TypeError (quoted ''>'' @ '' not supported between instances of '' @ quoted (type_name v) @ '' and '' @ quoted ''int''))"

text \<open>Substring test, for \<^verbatim>\<open>k in s\<close> on a string \<^verbatim>\<open>s\<close>.\<close>

fun starts_with :: "string \<Rightarrow> string \<Rightarrow> bool" where
  "starts_with [] s = True"
| "starts_with (c # cs) [] = False"
| "starts_with (c # cs) (d # ds) = (c = d \<and> starts_with cs ds)"

fun has_substring :: "string \<Rightarrow> string \<Rightarrow> bool" where
  "has_substring k [] = (k = [])"
| "has_substring k (c # cs) = (starts_with k (c # cs) \<or> has_substring k cs)"

text \<open>
  \<^verbatim>\<open>k in x\<close> for a string \<^verbatim>\<open>k\<close>: key membership on a dict, element membership on a list,
  substring on a string, a TypeError on the rest. \<^verbatim>\<open>x[k]\<close>: the value on a dict, a KeyError
  when the key is missing, a TypeError on everything else.
\<close>

fun py_contains :: "string \<Rightarrow> pyval \<Rightarrow> error + bool" where
  "py_contains k (PDict kvs) = Inr (k \<in> fst ` set kvs)"
| "py_contains k (PList xs) = Inr (PStr k \<in> set xs)"
| "py_contains k (PStr s) = Inr (has_substring k s)"
| "py_contains k v = Inl (TypeError (''argument of type '' @ quoted (type_name v) @ '' is not iterable''))"

fun py_getitem :: "pyval \<Rightarrow> string \<Rightarrow> error + pyval" where
  "py_getitem (PDict kvs) k =
     (case map_of kvs k of Some v \<Rightarrow> Inr v | None \<Rightarrow> Inl (KeyError (quoted k)))"
| "py_getitem (PList xs) k = Inl (TypeError ''list indices must be integers or slices, not str'')"
| "py_getitem (PStr s) k = Inl (TypeError (''string indices must be integers, not '' @ quoted ''str''))"
| "py_getitem v k = Inl (TypeError (quoted (type_name v) @ '' object is not subscriptable''))"

text \<open>A loop whose body may raise: the first exception leaves the loop.\<close>

fun fold_err :: "('a \<Rightarrow> 's \<Rightarrow> error + 's) \<Rightarrow> 'a list \<Rightarrow> 's \<Rightarrow> error + 's" where
  "fold_err f [] s = Inr s"
| "fold_err f (x # xs) s = (case f x s of Inl e \<Rightarrow> Inl e | Inr s' \<Rightarrow> fold_err f xs s')"

section \<open>The environment\<close>

text \<open>
  The classification client is not part of the file. A call either raises or returns the
  pair \<^verbatim>\<open>(data, meta)\<close>.
\<close>

datatype outcome = Raises error | Returns pyval pyval

text \<open>The arguments of the call, lines 306-307.\<close>

record 'g call =
  gateway :: 'g
  user_prompt :: string
  trade_date :: pyval
  run_id :: pyval

text \<open>The keyword arguments of \<^verbatim>\<open>LLMConfig(...)\<close>, lines 154-170.\<close>

record llm_args =
  provider :: string
  base_url :: string
  model :: string
  temperature :: pyfloat
  max_tokens :: int
  seed :: pyval
  timeout_sec :: pyfloat
  max_retries :: int
  backoff_factor :: pyfloat
  cache_enabled :: bool
  cache_ttl_hours :: int
  budget_prompt_tokens :: int
  budget_completion_tokens :: int
  auth_required :: pyval

text \<open>
  What the call receives besides the request: the configuration object with the two cache
  switches of lines 173-184 (\<open>None\<close> when the mode leaves them unset), and the system prompt.
\<close>

record 'c gateway_setup =
  llm_cfg :: 'c
  cache_read_enabled :: "bool option"
  cache_write_enabled :: "bool option"
  system_prompt :: string

text \<open>
  What the function uses and the file does not define: the current date
  (\<^verbatim>\<open>datetime.now().strftime("%Y-%m-%d")\<close>), the float nearest to a number (the rounding of
  the machine's float arithmetic and of the conversion of an integer, an infinity when the
  number is beyond the range), the text of an object that is not a string (\<^verbatim>\<open>str\<close>), the
  reading of a number from a string (\<^verbatim>\<open>float\<close>, \<^verbatim>\<open>int\<close>), the class \<^verbatim>\<open>LLMConfig\<close>, whose
  construction may raise, the prompt files, the rounding and serialization of the request
  (line 300), the construction of the client (line 302) and the call itself. They are the
  fields of the environment.
\<close>

record 'c env =
  today :: string
  nearest :: "rat \<Rightarrow> pyfloat"
  text_of :: "pyval \<Rightarrow> string"
  parse_float :: "string \<Rightarrow> pyfloat option"
  parse_int :: "string \<Rightarrow> int option"
  llm_config :: "llm_args \<Rightarrow> error + 'c"
  read_prompt :: "string \<Rightarrow> string option"
  serialize :: "pyval \<Rightarrow> error + string"
  new_client :: "error option"
  generate_json :: "'c gateway_setup call \<Rightarrow> outcome"

section \<open>Float arithmetic and conversions\<close>

text \<open>
  Addition and subtraction of floats: the exact result of two finite operands is rounded
  to the nearest float; the infinities and NaN follow IEEE 754.
\<close>

fun fneg :: "pyfloat \<Rightarrow> pyfloat" where
  "fneg (Finite r) = Finite (- r)"
| "fneg PosInf = NegInf"
| "fneg NegInf = PosInf"
| "fneg NaN = NaN"

fun fadd :: "'c env \<Rightarrow> pyfloat \<Rightarrow> pyfloat \<Rightarrow> pyfloat" where
  "fadd env (Finite x) (Finite y) = nearest env (x + y)"
| "fadd env NaN b = NaN"
| "fadd env a NaN = NaN"
| "fadd env PosInf NegInf = NaN"
| "fadd env NegInf PosInf = NaN"
| "fadd env PosInf b = PosInf"
| "fadd env NegInf b = NegInf"
| "fadd env (Finite x) b = b"

definition fsub :: "'c env \<Rightarrow> pyfloat \<Rightarrow> pyfloat \<Rightarrow> pyfloat" where
  "fsub env a b = fadd env a (fneg b)"

text \<open>
  The float of an integer, as arithmetic between an integer and a float and \<^verbatim>\<open>float(i)\<close>
  convert it: the nearest float, an OverflowError when there is none in the range.
\<close>

definition float_of_int :: "'c env \<Rightarrow> int \<Rightarrow> error + pyfloat" where
  "float_of_int env i =
     (case nearest env (of_int i) of
        Finite r \<Rightarrow> Inr (Finite r)
      | f \<Rightarrow> Inl (OverflowError ''int too large to convert to float''))"

text \<open>
  An operand of float arithmetic: \<open>None\<close> when the object is not a number, else its float
  or the exception of its conversion.
\<close>

fun as_float :: "'c env \<Rightarrow> pyval \<Rightarrow> (error + pyfloat) option" where
  "as_float env (PInt i) = Some (float_of_int env i)"
| "as_float env (PFloat f) = Some (Inr f)"
| "as_float env (PBool b) = Some (Inr (Finite (if b then 1 else 0)))"
| "as_float env v = None"

text \<open>\<^verbatim>\<open>acc += x\<close> with a float \<^verbatim>\<open>acc\<close>, and \<^verbatim>\<open>x - acc\<close>.\<close>

definition float_iadd :: "'c env \<Rightarrow> pyfloat \<Rightarrow> pyval \<Rightarrow> error + pyfloat" where
  "float_iadd env acc x =
     (case as_float env x of
        Some (Inr f) \<Rightarrow> Inr (fadd env acc f)
      | Some (Inl e) \<Rightarrow> Inl e
      | None \<Rightarrow> Inl (TypeError (''unsupported operand type(s) for +=: '' @ quoted ''float'' @ '' and '' @ quoted (type_name x))))"

definition sub_float :: "'c env \<Rightarrow> pyval \<Rightarrow> pyfloat \<Rightarrow> error + pyfloat" where
  "sub_float env x acc =
     (case as_float env x of
        Some (Inr f) \<Rightarrow> Inr (fsub env f acc)
      | Some (Inl e) \<Rightarrow> Inl e
      | None \<Rightarrow> Inl (TypeError (''unsupported operand type(s) for -: '' @ quoted (type_name x) @ '' and '' @ quoted ''float'')))"

text \<open>
  \<^verbatim>\<open>str(x)\<close>, \<^verbatim>\<open>float(x)\<close> and \<^verbatim>\<open>int(x)\<close>; \<^verbatim>\<open>int\<close> of a finite float truncates towards zero
  and raises for an infinity and for NaN.
\<close>

definition py_str :: "'c env \<Rightarrow> pyval \<Rightarrow> string" where
  "py_str env v = (case v of PStr s \<Rightarrow> s | w \<Rightarrow> text_of env w)"

definition py_float :: "'c env \<Rightarrow> pyval \<Rightarrow> error + pyfloat" where
  "py_float env v =
     (case v of
        PInt i \<Rightarrow> float_of_int env i
      | PFloat f \<Rightarrow> Inr f
      | PBool b \<Rightarrow> Inr (Finite (if b then 1 else 0))
      | PStr s \<Rightarrow>
          (case parse_float env s of
             Some f \<Rightarrow> Inr f
           | None \<Rightarrow> Inl (ValueError (''could not convert string to float: '' @ quoted s)))
      | w \<Rightarrow> Inl (TypeError (''float() argument must be a string or a real number, not ''
                              @ quoted (type_name w))))"

definition py_int :: "'c env \<Rightarrow> pyval \<Rightarrow> error + int" where
  "py_int env v =
     (case v of
        PInt i \<Rightarrow> Inr i
      | PFloat (Finite r) \<Rightarrow> Inr (if 0 \<le> r then \<lfloor>r\<rfloor> else \<lceil>r\<rceil>)
      | PFloat NaN \<Rightarrow> Inl (ValueError ''cannot convert float NaN to integer'')
      | PFloat f \<Rightarrow> Inl (OverflowError ''cannot convert float infinity to integer'')
      | PBool b \<Rightarrow> Inr (if b then 1 else 0)
      | PStr s \<Rightarrow>
          (case parse_int env s of
             Some i \<Rightarrow> Inr i
           | None \<Rightarrow> Inl (ValueError (''invalid literal for int() with base 10: '' @ quoted s)))
      | w \<Rightarrow> Inl (TypeError
                    (''int() argument must be a string, a bytes-like object or a real number, not ''
                     @ quoted (type_name w))))"

section \<open>History reconstruction\<close>

text \<open>
  \<^verbatim>\<open>_build_history_from_previous_decisions(previous_decisions, current_features)\<close>, lines 33-98.
  \<open>previous_decisions\<close> is any object (\<open>PNone\<close> for \<^verbatim>\<open>None\<close>); \<open>current_features\<close> is an
  optional dict from symbol to feature snapshot.
\<close>

text \<open>Lines 47-56: the date of the \<^verbatim>\<open>__meta__\<close> entry, \<^verbatim>\<open>None\<close> without one.\<close>

definition history_date_of :: "(string \<times> pyval) list \<Rightarrow> pyval" where
  "history_date_of previous_decisions =
     (case map_of previous_decisions ''__meta__'' of
        None \<Rightarrow> PNone
      | Some (PDict meta) \<Rightarrow> (case map_of meta ''date'' of Some d \<Rightarrow> d | None \<Rightarrow> PNone)
      | Some v \<Rightarrow> PNone)"

text \<open>Lines 71-79: the target of a zero-valued hold, taken from the live position when it is positive.\<close>

definition repair_target :: "(string \<times> pyval) list option \<Rightarrow> string \<Rightarrow> pyval \<Rightarrow> error + pyval" where
  "repair_target current_features symb target_cash_amount =
     (case current_features of
        None \<Rightarrow> Inr target_cash_amount
      | Some cf \<Rightarrow>
          (case map_of cf symb of
             None \<Rightarrow> Inr target_cash_amount
           | Some feats \<Rightarrow>
               bind_err (py_get feats ''position_state'' (PDict [])) (\<lambda>position_state.
               bind_err (py_get position_state ''current_position_value'' (PFloat (Finite 0))) (\<lambda>current_pos.
               bind_err (py_gt_zero current_pos) (\<lambda>positive.
                 Inr (if positive then current_pos else target_cash_amount))))))"

text \<open>Lines 63-88: the record built for one symbol whose decision is a dict.\<close>

definition history_record ::
  "(string \<times> pyval) list option \<Rightarrow> pyval \<Rightarrow> string \<Rightarrow> (string \<times> pyval) list \<Rightarrow> error + pyval" where
  "history_record current_features history_date symb decision =
     (let action = dict_get decision ''action'' (PStr ''hold'');
          cash_change = dict_get decision ''cash_change'' (PFloat (Finite 0));
          target_cash_amount = dict_get decision ''target_cash_amount'' (PFloat (Finite 0))
      in bind_err
           (if action = PStr ''hold'' \<and> py_eq_zero target_cash_amount \<and> py_eq_zero cash_change
            then repair_target current_features symb target_cash_amount
            else Inr target_cash_amount)
           (\<lambda>target. Inr (PDict
              [(''date'', history_date),
               (''action'', action),
               (''cash_change'', cash_change),
               (''target_cash_amount'', target),
               (''reasons'', dict_get decision ''reasons'' (PList [])),
               (''confidence'', dict_get decision ''confidence'' (PFloat (Finite (1 / 2))))])))"

text \<open>
  Lines 58-91, the loop over the decisions. It returns the history built so far and the
  exception that ended the loop, if one did: an entry that is not a dict is skipped, an
  exception in the body leaves the loop with the records of the earlier symbols in place.
\<close>

fun history_loop ::
  "(string \<times> pyval) list option \<Rightarrow> pyval \<Rightarrow> (string \<times> pyval) list \<Rightarrow> (string \<times> pyval) list
     \<Rightarrow> (string \<times> pyval) list \<times> error option" where
  "history_loop current_features history_date [] history = (history, None)"
| "history_loop current_features history_date ((symb, PDict decision) # rest) history =
     (case history_record current_features history_date symb decision of
        Inl e \<Rightarrow> (history, Some e)
      | Inr entry \<Rightarrow>
          history_loop current_features history_date rest (AList.update symb (PList [entry]) history))"
| "history_loop current_features history_date ((symb, v) # rest) history =
     history_loop current_features history_date rest history"

text \<open>Lines 43-96, the \<^verbatim>\<open>try\<close> block: the history at its end and the exception caught, if any.\<close>

definition build_history_try ::
  "pyval \<Rightarrow> (string \<times> pyval) list option \<Rightarrow> (string \<times> pyval) list \<times> error option" where
  "build_history_try previous_decisions current_features =
     (case py_items previous_decisions of
        Inl e \<Rightarrow> ([], Some e)
      | Inr entries \<Rightarrow>
          history_loop current_features (history_date_of entries)
            (filter (\<lambda>(k, v). k \<noteq> ''__meta__'') entries) [])"

text \<open>The function: the \<^verbatim>\<open>except\<close> clause only logs, and the history is returned in every case.\<close>

definition build_history_from_previous_decisions ::
  "pyval \<Rightarrow> (string \<times> pyval) list option \<Rightarrow> (string \<times> pyval) list" where
  "build_history_from_previous_decisions previous_decisions current_features =
     (if \<not> truthy previous_decisions then []
      else fst (build_history_try previous_decisions current_features))"

section \<open>The filter: inputs and result\<close>

text \<open>
  An element of \<^verbatim>\<open>features_list\<close> is a dict read at the keys \<^verbatim>\<open>symbol\<close> and \<^verbatim>\<open>features\<close>
  only; a field is \<open>None\<close> when the key is missing. The symbol is a string, as the input
  contract has it; the feature snapshot is any object.
\<close>

record item =
  symbol :: "string option"
  features :: "pyval option"

text \<open>\<^verbatim>\<open>item.get("symbol", "UNKNOWN")\<close> and \<^verbatim>\<open>item.get("features", {})\<close>.\<close>

definition symbol_of :: "item \<Rightarrow> string" where
  "symbol_of it = (case symbol it of None \<Rightarrow> ''UNKNOWN'' | Some s \<Rightarrow> s)"

definition features_of :: "item \<Rightarrow> pyval" where
  "features_of it = (case features it of None \<Rightarrow> PDict [] | Some f \<Rightarrow> f)"

definition symbols_list :: "item list \<Rightarrow> string list" where
  "symbols_list features_list = map symbol_of features_list"

text \<open>
  \<^verbatim>\<open>ctx\<close> is read at the keys \<^verbatim>\<open>portfolio\<close> and \<^verbatim>\<open>date\<close> only. The portfolio is an object of
  which the agent reads the attribute \<^verbatim>\<open>cash\<close>; the field holds the value of that
  attribute. The date is a date-like object (held as the text its
  \<^verbatim>\<open>strftime("%Y-%m-%d")\<close> gives), a string, or something else.
\<close>

datatype ctx_date = DateLike string | DateText string | DateOther

record ctx =
  portfolio :: "pyval option"
  date :: "ctx_date option"

text \<open>The returned dict, with its two keys.\<close>

record result =
  stocks_need_fundamental :: "pyval list"
  reasoning :: "(string \<times> pyval) list"

text \<open>A dict comprehension \<^verbatim>\<open>{s: f(s) for s in symbols}\<close>.\<close>

definition dict_comprehension :: "string list \<Rightarrow> (string \<Rightarrow> pyval) \<Rightarrow> (string \<times> pyval) list" where
  "dict_comprehension symbols f = foldl (\<lambda>d s. AList.update s (f s) d) [] symbols"

text \<open>The conservative answer of lines 132-137, 316-321, 330-335 and 369-374: every symbol, each with the given reason.\<close>

definition fallback_all :: "string list \<Rightarrow> (string \<Rightarrow> string) \<Rightarrow> result" where
  "fallback_all symbols reason =
     \<lparr>stocks_need_fundamental = map PStr symbols,
      reasoning = dict_comprehension symbols (\<lambda>s. PStr (reason s))\<rparr>"

section \<open>Request assembly\<close>

text \<open>
  Lines 194-211, the body of the loop over the candidates; the state is the \<^verbatim>\<open>symbols\<close>
  dict and \<^verbatim>\<open>total_current_position\<close>.
\<close>

definition symbols_step ::
  "'c env \<Rightarrow> item \<Rightarrow> (string \<times> pyval) list \<times> pyfloat
     \<Rightarrow> error + (string \<times> pyval) list \<times> pyfloat" where
  "symbols_step env it st =
     bind_err (py_items (features_of it)) (\<lambda>sections.
       let filtered_features =
             filter (\<lambda>(section_key, section_data). section_key \<noteq> ''fundamental_data'') sections
       in bind_err (py_get (dict_get filtered_features ''position_state'' (PDict []))
                      ''current_position_value'' (PFloat (Finite 0))) (\<lambda>current_pos_value.
          bind_err (float_iadd env (snd st) current_pos_value) (\<lambda>total_current_position.
            Inr (AList.update (symbol_of it) (PDict [(''features'', PDict filtered_features)]) (fst st),
                 total_current_position))))"

text \<open>
  Lines 214-224: the portfolio figures, from the live cash (\<^verbatim>\<open>float(ctx["portfolio"].cash)\<close>)
  or from the configuration.
\<close>

definition portfolio_info ::
  "'c env \<Rightarrow> (string \<times> pyval) list option \<Rightarrow> ctx option \<Rightarrow> pyfloat \<Rightarrow> error + pyval" where
  "portfolio_info env cfg ctx total_current_position =
     (let portfolio_cfg =
            (case cfg of
               None \<Rightarrow> PDict []
             | Some c \<Rightarrow> if c = [] then PDict [] else dict_get c ''portfolio'' (PDict []))
      in case (case ctx of None \<Rightarrow> None | Some c \<Rightarrow> portfolio c) of
           Some cash \<Rightarrow>
             bind_err (py_float env cash) (\<lambda>current_cash.
               Inr (PDict [(''total_assets'', PFloat (fadd env current_cash total_current_position)),
                           (''available_cash'', PFloat current_cash),
                           (''position_value'', PFloat total_current_position)]))
         | None \<Rightarrow>
             bind_err (py_get portfolio_cfg ''total_cash'' (PInt 100000)) (\<lambda>total_assets.
             bind_err (sub_float env total_assets total_current_position) (\<lambda>available_cash.
               Inr (PDict [(''total_assets'', total_assets),
                           (''available_cash'', PFloat available_cash),
                           (''position_value'', PFloat total_current_position)]))))"

text \<open>Lines 233-237: the feature snapshots by symbol, for the repair of the history.\<close>

definition current_features_of :: "item list \<Rightarrow> (string \<times> pyval) list" where
  "current_features_of features_list =
     foldl (\<lambda>cf it. AList.update (symbol_of it) (features_of it) cf) [] features_list"

text \<open>Lines 227-240: a non-empty \<^verbatim>\<open>decision_history\<close> is used as it is, else the history is rebuilt.\<close>

definition select_history ::
  "item list \<Rightarrow> pyval \<Rightarrow> (string \<times> pyval) list option \<Rightarrow> (string \<times> pyval) list" where
  "select_history features_list previous_decisions decision_history =
     (case decision_history of
        Some h \<Rightarrow>
          if h \<noteq> [] then h
          else build_history_from_previous_decisions previous_decisions
                 (Some (current_features_of features_list))
      | None \<Rightarrow>
          build_history_from_previous_decisions previous_decisions
            (Some (current_features_of features_list)))"

text \<open>Lines 190-251: \<^verbatim>\<open>filter_input\<close>, the request before it is rounded and serialized.\<close>

definition build_filter_input ::
  "'c env \<Rightarrow> item list \<Rightarrow> (string \<times> pyval) list option \<Rightarrow> ctx option \<Rightarrow> pyval
     \<Rightarrow> (string \<times> pyval) list option \<Rightarrow> error + pyval" where
  "build_filter_input env features_list cfg ctx previous_decisions decision_history =
     bind_err (fold_err (symbols_step env) features_list ([], Finite 0)) (\<lambda>st.
     bind_err (portfolio_info env cfg ctx (snd st)) (\<lambda>info.
       Inr (PDict [(''portfolio_info'', info),
                   (''symbols'', PDict (fst st)),
                   (''history'', PDict (select_history features_list previous_decisions decision_history))])))"

section \<open>Trade date\<close>

text \<open>
  Line 272 calls \<^verbatim>\<open>datetime.fromisoformat\<close>. The function body imports \<^verbatim>\<open>datetime\<close> at lines
  289 and 295, which makes the name local to the whole function; at line 272 neither import
  has run, so the call raises UnboundLocalError for every timestamp.
\<close>

definition datetime_fromisoformat :: "string \<Rightarrow> error + string" where
  "datetime_fromisoformat timestamp =
     Inl (UnboundLocalError (''cannot access local variable '' @ quoted ''datetime''
                              @ '' where it is not associated with a value''))"

text \<open>
  Lines 258-276, the loop over the candidates: the value of \<^verbatim>\<open>trade_date\<close> when the loop
  ends (\<open>PNone\<close> when nothing was found), or the exception that leaves it. The bare
  \<^verbatim>\<open>except\<close> of line 275 swallows a failed timestamp conversion and the loop goes on.
\<close>

fun scan_market_dates :: "item list \<Rightarrow> error + pyval" where
  "scan_market_dates [] = Inr PNone"
| "scan_market_dates (it # rest) =
     (case py_get (features_of it) ''market_data'' (PDict []) of
        Inl e \<Rightarrow> Inl e
      | Inr market_data \<Rightarrow>
          (case py_contains ''date'' market_data of
             Inl e \<Rightarrow> Inl e
           | Inr True \<Rightarrow> py_getitem market_data ''date''
           | Inr False \<Rightarrow>
               (case py_contains ''timestamp'' market_data of
                  Inl e \<Rightarrow> Inl e
                | Inr False \<Rightarrow> scan_market_dates rest
                | Inr True \<Rightarrow>
                    (case py_getitem market_data ''timestamp'' of
                       Inl e \<Rightarrow> Inl e
                     | Inr (PStr timestamp) \<Rightarrow>
                         (case datetime_fromisoformat timestamp of
                            Inr d \<Rightarrow> Inr (PStr d)
                          | Inl e \<Rightarrow> scan_market_dates rest)
                     | Inr v \<Rightarrow> scan_market_dates rest))))"

text \<open>Lines 280-285: the date of the context.\<close>

definition ctx_trade_date :: "ctx \<Rightarrow> pyval \<Rightarrow> pyval" where
  "ctx_trade_date c found =
     (case date c of
        None \<Rightarrow> found
      | Some (DateLike formatted) \<Rightarrow> PStr formatted
      | Some (DateText text) \<Rightarrow> PStr text
      | Some DateOther \<Rightarrow> found)"

text \<open>
  Lines 256-291, the \<^verbatim>\<open>try\<close> block; \<open>now\<close> is \<^verbatim>\<open>datetime.now().strftime("%Y-%m-%d")\<close>.
  Nothing is done for an empty \<^verbatim>\<open>features_list\<close>.
\<close>

definition extract_trade_date :: "string \<Rightarrow> item list \<Rightarrow> ctx option \<Rightarrow> error + pyval" where
  "extract_trade_date now features_list ctx =
     (if features_list \<noteq> [] \<and> 0 < length features_list then
        bind_err (scan_market_dates features_list) (\<lambda>found.
          let from_ctx =
                (if \<not> truthy found
                 then (case ctx of None \<Rightarrow> found | Some c \<Rightarrow> ctx_trade_date c found)
                 else found)
          in Inr (if \<not> truthy from_ctx then PStr now else from_ctx))
      else Inr PNone)"

text \<open>Lines 253-297: an exception in the block gives the current date.\<close>

definition resolve_trade_date :: "string \<Rightarrow> item list \<Rightarrow> ctx option \<Rightarrow> pyval" where
  "resolve_trade_date now features_list ctx =
     (case extract_trade_date now features_list ctx of
        Inl e \<Rightarrow> PStr now
      | Inr found \<Rightarrow> found)"

section \<open>Response validation\<close>

text \<open>
  \<^verbatim>\<open>x in input_symbols\<close>, membership in a set of strings: the element is hashed first, and a
  list or a dict is not hashable.
\<close>

fun in_input_symbols :: "string list \<Rightarrow> pyval \<Rightarrow> error + bool" where
  "in_input_symbols symbols (PStr s) = Inr (s \<in> set symbols)"
| "in_input_symbols symbols (PList xs) = Inl (TypeError (''unhashable type: '' @ quoted ''list''))"
| "in_input_symbols symbols (PDict kvs) = Inl (TypeError (''unhashable type: '' @ quoted ''dict''))"
| "in_input_symbols symbols v = Inr False"

text \<open>Line 351, the list comprehension that keeps the symbols of the input.\<close>

fun filter_hallucinated :: "string list \<Rightarrow> pyval list \<Rightarrow> error + pyval list" where
  "filter_hallucinated symbols [] = Inr []"
| "filter_hallucinated symbols (x # xs) =
     (case in_input_symbols symbols x of
        Inl e \<Rightarrow> Inl e
      | Inr keep \<Rightarrow>
          (case filter_hallucinated symbols xs of
             Inl e \<Rightarrow> Inl e
           | Inr ys \<Rightarrow> Inr (if keep then x # ys else ys)))"

text \<open>
  Lines 342-348: a default reason for every input symbol the service gave none for. Python
  visits the set of input symbols in an order of its own; the order only decides where the
  new keys are appended, and the list of symbols is used for it here.
\<close>

fun ensure_reasoning ::
  "pyval list \<Rightarrow> string list \<Rightarrow> (string \<times> pyval) list \<Rightarrow> (string \<times> pyval) list" where
  "ensure_reasoning need [] given = given"
| "ensure_reasoning need (s # symbols) given =
     ensure_reasoning need symbols
       (if s \<notin> fst ` set given
        then AList.update s
               (PStr (if PStr s \<in> set need
                      then ''Requires fundamental analysis (no specific reasoning provided)''
                      else ''Technical analysis sufficient (no specific reasoning provided)''))
               given
        else given)"

text \<open>Lines 306-364, the \<^verbatim>\<open>try\<close> block from the answer of the call on.\<close>

definition parse_response :: "string list \<Rightarrow> outcome \<Rightarrow> error + result" where
  "parse_response symbols answer =
     (case answer of
        Raises e \<Rightarrow> Inl e
      | Returns data meta \<Rightarrow>
          bind_err (py_get meta ''cached'' (PBool False)) (\<lambda>cached.
          bind_err (py_get meta ''latency_ms'' (PInt 0)) (\<lambda>latency.
            if \<not> truthy data \<or> \<not> is_dict data then
              Inr (fallback_all symbols
                     (\<lambda>s. ''LLM returned invalid format, requiring fundamental analysis as fallback''))
            else
              bind_err (py_get data ''stocks_need_fundamental'' (PList [])) (\<lambda>need.
              bind_err (py_get data ''reasoning'' (PDict [])) (\<lambda>given.
                case need of
                  PList need_list \<Rightarrow>
                    bind_err (filter_hallucinated symbols need_list) (\<lambda>filtered.
                      Inr \<lparr>stocks_need_fundamental = filtered,
                           reasoning = ensure_reasoning need_list symbols
                                         (case given of PDict r \<Rightarrow> r | v \<Rightarrow> [])\<rparr>)
                | v \<Rightarrow>
                    Inr (fallback_all symbols
                           (\<lambda>s. ''Invalid filter result format, requiring fundamental analysis as fallback'')))))))"

text \<open>Lines 305-374: any exception of the block gives the conservative answer, with its text cut at 50 characters.\<close>

definition validate_response :: "string list \<Rightarrow> outcome \<Rightarrow> result" where
  "validate_response symbols answer =
     (case parse_response symbols answer of
        Inr r \<Rightarrow> r
      | Inl e \<Rightarrow>
          fallback_all symbols
            (\<lambda>s. ''Error during filtering ('' @ take 50 (str_of_error e)
                  @ ''), requiring fundamental analysis as fallback''))"

section \<open>The gateway\<close>

text \<open>\<^verbatim>\<open>s.lower()\<close>, on the letters A to Z.\<close>

definition lower :: "string \<Rightarrow> string" where
  "lower s =
     map (\<lambda>c. case map_of (zip ''ABCDEFGHIJKLMNOPQRSTUVWXYZ'' ''abcdefghijklmnopqrstuvwxyz'') c of
                 Some l \<Rightarrow> l
               | None \<Rightarrow> c) s"

text \<open>\<^verbatim>\<open>x.get(section, {}).get(k, d)\<close>.\<close>

definition get_nested :: "pyval \<Rightarrow> string \<Rightarrow> string \<Rightarrow> pyval \<Rightarrow> error + pyval" where
  "get_nested v section k d = bind_err (py_get v section (PDict [])) (\<lambda>inner. py_get inner k d)"

text \<open>Line 158: the first truthy model name, the last one with a default.\<close>

definition model_choice :: "pyval \<Rightarrow> pyval \<Rightarrow> error + pyval" where
  "model_choice filter_cfg llm_cfg_raw =
     bind_err (py_get filter_cfg ''model'' PNone) (\<lambda>own.
       if truthy own then Inr own
       else bind_err (py_get llm_cfg_raw ''fundamental_filter_model'' PNone) (\<lambda>dedicated.
         if truthy dedicated then Inr dedicated
         else bind_err (py_get llm_cfg_raw ''model'' PNone) (\<lambda>general.
           if truthy general then Inr general
           else py_get llm_cfg_raw ''analyzer_model'' (PStr ''gpt-4o-mini''))))"

text \<open>Lines 154-170: the arguments, evaluated in the order they are written.\<close>

definition llm_arguments :: "'c env \<Rightarrow> pyval \<Rightarrow> pyval \<Rightarrow> error + llm_args" where
  "llm_arguments env filter_cfg llm_cfg_raw =
     bind_err (py_get llm_cfg_raw ''provider'' (PStr ''openai-compatible'')) (\<lambda>a_provider.
     bind_err (py_get llm_cfg_raw ''base_url'' (PStr ''https://api.openai.com/v1'')) (\<lambda>a_base_url.
     bind_err (model_choice filter_cfg llm_cfg_raw) (\<lambda>a_model.
     bind_err (bind_err (py_get filter_cfg ''temperature'' (PFloat (nearest env (3 / 10)))) (py_float env)) (\<lambda>a_temperature.
     bind_err (bind_err (py_get filter_cfg ''max_tokens'' (PInt 4000)) (py_int env)) (\<lambda>a_max_tokens.
     bind_err (py_get llm_cfg_raw ''seed'' PNone) (\<lambda>a_seed.
     bind_err (bind_err (py_get llm_cfg_raw ''timeout_sec'' (PInt 60)) (py_float env)) (\<lambda>a_timeout_sec.
     bind_err (bind_err (get_nested llm_cfg_raw ''retry'' ''max_retries'' (PInt 3)) (py_int env)) (\<lambda>a_max_retries.
     bind_err (bind_err (get_nested llm_cfg_raw ''retry'' ''backoff_factor'' (PFloat (Finite (1 / 2)))) (py_float env))
       (\<lambda>a_backoff_factor.
     bind_err (get_nested llm_cfg_raw ''cache'' ''enabled'' (PBool True)) (\<lambda>a_cache_enabled.
     bind_err (bind_err (get_nested llm_cfg_raw ''cache'' ''ttl_hours'' (PInt 24)) (py_int env)) (\<lambda>a_cache_ttl_hours.
     bind_err (bind_err (get_nested llm_cfg_raw ''budget'' ''max_prompt_tokens'' (PInt 200000)) (py_int env))
       (\<lambda>a_budget_prompt_tokens.
     bind_err (bind_err (get_nested llm_cfg_raw ''budget'' ''max_completion_tokens'' (PInt 200000)) (py_int env))
       (\<lambda>a_budget_completion_tokens.
     bind_err (py_get llm_cfg_raw ''auth_required'' PNone) (\<lambda>a_auth_required.
       Inr \<lparr>provider = py_str env a_provider,
            base_url = py_str env a_base_url,
            model = py_str env a_model,
            temperature = a_temperature,
            max_tokens = a_max_tokens,
            seed = a_seed,
            timeout_sec = a_timeout_sec,
            max_retries = a_max_retries,
            backoff_factor = a_backoff_factor,
            cache_enabled = truthy a_cache_enabled,
            cache_ttl_hours = a_cache_ttl_hours,
            budget_prompt_tokens = a_budget_prompt_tokens,
            budget_completion_tokens = a_budget_completion_tokens,
            auth_required = a_auth_required\<rparr>))))))))))))))"

text \<open>
  \<^verbatim>\<open>_load_prompt\<close>, lines 19-25: joining the path raises for a name that is not a string; a
  file that cannot be read gives the built-in prompt.
\<close>

definition load_prompt :: "'c env \<Rightarrow> pyval \<Rightarrow> error + string" where
  "load_prompt env name =
     (case name of
        PStr file \<Rightarrow>
          Inr (case read_prompt env file of
                 Some content \<Rightarrow> content
               | None \<Rightarrow> ''System: You are a fundamental filter agent responsible for determining which stocks need fundamental analysis. Output compliant filter results in JSON format.'')
      | w \<Rightarrow> Inl (TypeError (''join() argument must be str, bytes, or os.PathLike object, not ''
                              @ quoted (type_name w))))"

text \<open>Lines 148-188.\<close>

definition set_up_gateway :: "'c env \<Rightarrow> (string \<times> pyval) list \<Rightarrow> error + 'c gateway_setup" where
  "set_up_gateway env conf =
     (let llm_cfg_raw = dict_get conf ''llm'' (PDict []) in
      bind_err (py_get (dict_get conf ''agents'' (PDict [])) ''dual_agent'' (PDict [])) (\<lambda>dual_agent_cfg.
      bind_err (py_get dual_agent_cfg ''fundamental_filter'' (PDict [])) (\<lambda>filter_cfg.
      bind_err (py_get (dict_get conf ''cache'' (PDict [])) ''mode'' (PStr ''full'')) (\<lambda>mode.
      let cache_mode = lower (py_str env mode) in
      bind_err (llm_arguments env filter_cfg llm_cfg_raw) (\<lambda>args.
      bind_err (llm_config env args) (\<lambda>made.
      bind_err (bind_err (py_get (dict_get conf ''agents'' (PDict [])) ''dual_agent'' (PDict []))
                  (\<lambda>d. bind_err (py_get d ''fundamental_filter'' (PDict []))
                         (\<lambda>f. py_get f ''prompt'' (PStr ''fundamental_filter_v1.txt''))))
        (\<lambda>prompt_name.
      bind_err (load_prompt env prompt_name) (\<lambda>prompt.
        Inr \<lparr>llm_cfg = made,
             cache_read_enabled =
               (if cache_mode = ''off'' then Some False
                else if cache_mode = ''llm_write_only'' then Some False
                else if cache_mode = ''full'' then Some True
                else None),
             cache_write_enabled =
               (if cache_mode = ''off'' then Some False
                else if cache_mode = ''llm_write_only'' then Some True
                else if cache_mode = ''full'' then Some True
                else None),
             system_prompt = prompt\<rparr>))))))))"

section \<open>The filter\<close>

text \<open>\<^verbatim>\<open>(cfg or {})\<close>.\<close>

definition cfg_or_empty :: "(string \<times> pyval) list option \<Rightarrow> (string \<times> pyval) list" where
  "cfg_or_empty cfg = (case cfg of None \<Rightarrow> [] | Some c \<Rightarrow> c)"

text \<open>
  \<^verbatim>\<open>filter_stocks_needing_fundamental\<close>, lines 101-374. The value is the exception that
  reaches the caller, or the returned dict together with the calls made to the
  classification service.
\<close>

definition filter_stocks_needing_fundamental ::
  "'c env \<Rightarrow> item list \<Rightarrow> (string \<times> pyval) list option \<Rightarrow> bool \<Rightarrow> pyval \<Rightarrow> ctx option
     \<Rightarrow> pyval \<Rightarrow> (string \<times> pyval) list option
     \<Rightarrow> error + result \<times> 'c gateway_setup call list" where
  "filter_stocks_needing_fundamental env features_list cfg enable_llm rid ctx
       previous_decisions decision_history =
     (if \<not> enable_llm then
        Inr (fallback_all (symbols_list features_list)
               (\<lambda>s. ''LLM not enabled, requiring fundamental analysis for '' @ s
                     @ '' as conservative fallback''), [])
      else
        let llm_cfg_raw = dict_get (cfg_or_empty cfg) ''llm'' (PDict [])
        in if \<not> truthy llm_cfg_raw then
             Inl (ValueError ''No LLM configuration found. Use --llm-profile parameter to specify configuration.'')
           else
             bind_err (set_up_gateway env (cfg_or_empty cfg)) (\<lambda>g.
             bind_err (build_filter_input env features_list cfg ctx previous_decisions decision_history)
               (\<lambda>filter_input.
             let resolved = resolve_trade_date (today env) features_list ctx
             in bind_err (serialize env filter_input) (\<lambda>prompt.
                  case new_client env of
                    Some e \<Rightarrow> Inl e
                  | None \<Rightarrow>
                      let c = \<lparr>gateway = g, user_prompt = prompt, trade_date = resolved, run_id = rid\<rparr>
                      in Inr (validate_response (symbols_list features_list) (generate_json env c),
                              [c])))))"

section \<open>Example inputs\<close>

text \<open>
  An environment in which the set-up succeeds and the classification call fails, and the
  gateway it sets up for a configuration that has only an \<^verbatim>\<open>llm\<close> section. The numbers
  of the examples are integers and dyadic fractions that a float holds exactly, and their
  sums are too; the environment rounds nothing.
\<close>

definition demo_env :: "unit env" where
  "demo_env =
     \<lparr>today = ''2024-03-18'',
      nearest = Finite,
      text_of = (\<lambda>v. ''None''),
      parse_float = (\<lambda>s. None),
      parse_int = (\<lambda>s. None),
      llm_config = (\<lambda>args. Inr ()),
      read_prompt = (\<lambda>file. None),
      serialize = (\<lambda>v. Inr ''{}''),
      new_client = None,
      generate_json = (\<lambda>c. Raises (OtherError ''connection refused''))\<rparr>"

definition demo_gateway :: "unit gateway_setup" where
  "demo_gateway =
     \<lparr>llm_cfg = (), cache_read_enabled = Some True, cache_write_enabled = Some True,
      system_prompt = ''System: You are a fundamental filter agent responsible for determining which stocks need fundamental analysis. Output compliant filter results in JSON format.''\<rparr>"

text \<open>Two candidates, and a configuration with an \<^verbatim>\<open>llm\<close> section.\<close>

definition demo_cfg :: "(string \<times> pyval) list option" where
  "demo_cfg = Some [(''llm'', PDict [(''model'', PStr ''gpt-4o-mini'')])]"

definition demo_features :: "item list" where
  "demo_features =
     [\<lparr>symbol = Some ''AAPL'',
       features = Some (PDict
         [(''market_data'', PDict [(''close'', PFloat (Finite 189))]),
          (''position_state'', PDict [(''current_position_value'', PFloat (Finite 20000))]),
          (''fundamental_data'', PDict [(''pe_ratio'', PFloat (Finite 29))])])\<rparr>,
      \<lparr>symbol = Some ''MSFT'',
       features = Some (PDict [(''market_data'', PDict [(''close'', PInt 410)])])\<rparr>]"

definition demo_call :: "unit gateway_setup call" where
  "demo_call =
     \<lparr>gateway = demo_gateway, user_prompt = ''{}'', trade_date = PStr ''2024-03-18'', run_id = PNone\<rparr>"

text \<open>The same environment with a service that answers; a well-formed answer that names
  a symbol outside the input, one whose list holds an object instead of a symbol, and the
  first answer returned with \<^verbatim>\<open>None\<close> for metadata.\<close>

definition answering_env :: "outcome \<Rightarrow> unit env" where
  "answering_env answer = demo_env\<lparr>generate_json := (\<lambda>c. answer)\<rparr>"

definition demo_answer :: outcome where
  "demo_answer =
     Returns
       (PDict [(''stocks_need_fundamental'', PList [PStr ''MSFT'', PStr ''TSLA'']),
               (''reasoning'', PDict [(''MSFT'', PStr ''Earnings due this week''),
                                      (''TSLA'', PStr ''High volatility'')])])
       (PDict [(''cached'', PBool False), (''latency_ms'', PInt 420)])"

definition nested_answer :: outcome where
  "nested_answer =
     Returns
       (PDict [(''stocks_need_fundamental'', PList [PDict [(''symbol'', PStr ''MSFT'')]])])
       (PDict [(''cached'', PBool False), (''latency_ms'', PInt 420)])"

definition unlogged_answer :: outcome where
  "unlogged_answer =
     Returns
       (PDict [(''stocks_need_fundamental'', PList [PStr ''MSFT'', PStr ''TSLA'']),
               (''reasoning'', PDict [(''MSFT'', PStr ''Earnings due this week''),
                                      (''TSLA'', PStr ''High volatility'')])])
       PNone"

text \<open>Prior decisions for three symbols, and current features with a valid and with a
  missing (\<^verbatim>\<open>None\<close>) position value for the second of them.\<close>

definition msft_decision :: "(string \<times> pyval) list" where
  "msft_decision =
     [(''action'', PStr ''buy''), (''cash_change'', PFloat (Finite 1000)), (''target_cash_amount'', PFloat (Finite 5000)),
      (''reasons'', PList [PStr ''momentum'']), (''confidence'', PFloat (Finite (4 / 5)))]"

definition aapl_decision :: "(string \<times> pyval) list" where
  "aapl_decision =
     [(''action'', PStr ''hold''), (''cash_change'', PFloat (Finite 0)), (''target_cash_amount'', PFloat (Finite 0))]"

definition nvda_decision :: "(string \<times> pyval) list" where
  "nvda_decision =
     [(''action'', PStr ''sell''), (''cash_change'', PFloat (Finite (- 700))), (''target_cash_amount'', PFloat (Finite 0))]"

definition demo_entries :: "(string \<times> pyval) list" where
  "demo_entries =
     [(''__meta__'', PDict [(''date'', PStr ''2024-03-15'')]),
      (''MSFT'', PDict msft_decision),
      (''AAPL'', PDict aapl_decision),
      (''NVDA'', PDict nvda_decision)]"

definition demo_decisions :: pyval where
  "demo_decisions = PDict demo_entries"

definition demo_current :: "(string \<times> pyval) list option" where
  "demo_current =
     Some [(''AAPL'', PDict [(''position_state'', PDict [(''current_position_value'', PFloat (Finite 1500))])])]"

definition broken_current :: "(string \<times> pyval) list option" where
  "broken_current =
     Some [(''AAPL'', PDict [(''position_state'', PDict [(''current_position_value'', PNone)])])]"

text \<open>Two zero-valued holds, and current features that hold \<^verbatim>\<open>None\<close> for the position value
  of the first symbol and a positive value for the second.\<close>

definition blocked_entries :: "(string \<times> pyval) list" where
  "blocked_entries = [(''AAPL'', PDict aapl_decision), (''NVDA'', PDict aapl_decision)]"

definition blocked_current :: "(string \<times> pyval) list option" where
  "blocked_current =
     Some [(''AAPL'', PDict [(''position_state'', PDict [(''current_position_value'', PNone)])]),
           (''NVDA'', PDict [(''position_state'', PDict [(''current_position_value'', PFloat (Finite 1500))])])]"

text \<open>A context with a date and one with a live portfolio; candidates with and without a date
  field, with a timestamp only, and with a market-data section that is \<^verbatim>\<open>None\<close>; two
  candidates without a symbol; a configuration whose token limit is not a number; a
  candidate whose position value is an integer beyond the range of a float.\<close>

definition dated_ctx :: ctx where
  "dated_ctx = \<lparr>portfolio = None, date = Some (DateText ''2024-03-15'')\<rparr>"

definition live_ctx :: ctx where
  "live_ctx = \<lparr>portfolio = Some (PFloat (Finite 50000)), date = None\<rparr>"

definition plain_item :: item where
  "plain_item =
     \<lparr>symbol = Some ''AAPL'',
      features = Some (PDict [(''market_data'', PDict [(''close'', PFloat (Finite 189))])])\<rparr>"

definition dated_item :: item where
  "dated_item =
     \<lparr>symbol = Some ''MSFT'',
      features = Some (PDict [(''market_data'', PDict [(''close'', PInt 410),
                                                      (''date'', PStr ''2024-03-14'')])])\<rparr>"

definition dated_features :: "item list" where
  "dated_features = [plain_item, dated_item]"

definition stamped_features :: "item list" where
  "stamped_features =
     [\<lparr>symbol = Some ''AAPL'',
       features = Some (PDict [(''market_data'',
                                PDict [(''timestamp'', PStr ''2024-03-15T10:00:00Z'')])])\<rparr>]"

definition broken_features :: "item list" where
  "broken_features = [\<lparr>symbol = Some ''AAPL'', features = Some (PDict [(''market_data'', PNone)])\<rparr>]"

definition first_unnamed :: item where
  "first_unnamed =
     \<lparr>symbol = None, features = Some (PDict [(''market_data'', PDict [(''close'', PFloat (Finite 189))])])\<rparr>"

definition second_unnamed :: item where
  "second_unnamed =
     \<lparr>symbol = None, features = Some (PDict [(''market_data'', PDict [(''close'', PInt 410)])])\<rparr>"

definition unnamed_pair :: "item list" where
  "unnamed_pair = [first_unnamed, second_unnamed]"

definition mistyped_cfg :: "(string \<times> pyval) list option" where
  "mistyped_cfg =
     Some [(''llm'', PDict [(''model'', PStr ''gpt-4o-mini'')]),
           (''agents'', PDict [(''dual_agent'', PDict [(''fundamental_filter'',
               PDict [(''max_tokens'', PStr ''many'')])])])]"

definition oversized_features :: "item list" where
  "oversized_features =
     [\<lparr>symbol = Some ''AAPL'',
       features = Some (PDict [(''position_state'', PDict [(''current_position_value'', PInt (10 ^ 400))])])\<rparr>]"

text \<open>The example environment with floats of the range of a double: a number of magnitude
  below \<open>2 ^ 1024\<close> is its own nearest float, a larger one has none.\<close>

definition ranged_env :: "unit env" where
  "ranged_env =
     demo_env\<lparr>nearest := (\<lambda>r. if \<bar>r\<bar> < 2 ^ 1024 then Finite r
                                else if 0 < r then PosInf else NegInf)\<rparr>"

section \<open>Vocabulary of the properties\<close>

text \<open>
  The answers of the service that count as a failure: the call raised, or the data is
  empty, \<^verbatim>\<open>None\<close> or not a dict, or its field \<^verbatim>\<open>stocks_need_fundamental\<close> is present
  and not a list.
\<close>

definition malformed_answer :: "outcome \<Rightarrow> bool" where
  "malformed_answer answer =
     (case answer of
        Raises e \<Rightarrow> True
      | Returns (PDict d) meta \<Rightarrow>
          d = [] \<or> (case map_of d ''stocks_need_fundamental'' of
                      Some v \<Rightarrow> \<not> is_list v
                    | None \<Rightarrow> False)
      | Returns data meta \<Rightarrow> True)"

text \<open>
  The reason the conservative answer gives for an exception (its text cut at 50
  characters, line 372), and the reason it gives for each kind of failed answer: the
  exception of a call that raised; the AttributeError of line 309 when the metadata is not
  a dict; the invalid format of line 319 when the data is empty, \<^verbatim>\<open>None\<close> or not a dict;
  the invalid field of line 333 otherwise.
\<close>

definition error_reason :: "error \<Rightarrow> string" where
  "error_reason e =
     ''Error during filtering ('' @ take 50 (str_of_error e)
       @ ''), requiring fundamental analysis as fallback''"

definition failure_reason :: "outcome \<Rightarrow> string" where
  "failure_reason answer =
     (case answer of
        Raises e \<Rightarrow> error_reason e
      | Returns data meta \<Rightarrow>
          if \<not> is_dict meta then
            error_reason (AttributeError (quoted (type_name meta) @ '' object has no attribute ''
                                            @ quoted ''get''))
          else if \<not> truthy data \<or> \<not> is_dict data then
            ''LLM returned invalid format, requiring fundamental analysis as fallback''
          else ''Invalid filter result format, requiring fundamental analysis as fallback'')"

text \<open>
  The symbols of the service's list that belong to the input, in the service's order; the
  default reason of lines 346 and 348; the reasoning the service gave (a value that is not
  a dict counts as none, line 339).
\<close>

definition input_subsequence :: "string list \<Rightarrow> pyval list \<Rightarrow> pyval list" where
  "input_subsequence symbols need = filter (\<lambda>x. x \<in> PStr ` set symbols) need"

definition default_reason :: "pyval list \<Rightarrow> string \<Rightarrow> pyval" where
  "default_reason need s =
     PStr (if PStr s \<in> set need
           then ''Requires fundamental analysis (no specific reasoning provided)''
           else ''Technical analysis sufficient (no specific reasoning provided)'')"

definition given_reasoning :: "(string \<times> pyval) list \<Rightarrow> (string \<times> pyval) list" where
  "given_reasoning d = (case map_of d ''reasoning'' of Some (PDict g) \<Rightarrow> g | _ \<Rightarrow> [])"

text \<open>The first element of a list that cannot be hashed, a list or a dict, if there is one.\<close>

definition first_unhashable :: "pyval list \<Rightarrow> pyval option" where
  "first_unhashable need = find (\<lambda>x. is_list x \<or> is_dict x) need"

text \<open>
  An entry of the prior decisions fails when building its record raises; the symbols that
  have a decision (a dict) among some entries.
\<close>

definition entry_fails :: "(string \<times> pyval) list option \<Rightarrow> pyval \<Rightarrow> string \<times> pyval \<Rightarrow> bool" where
  "entry_fails current_features history_date kv =
     (case snd kv of
        PDict decision \<Rightarrow> isl (history_record current_features history_date (fst kv) decision)
      | v \<Rightarrow> False)"

definition decided_symbols :: "(string \<times> pyval) list \<Rightarrow> string set" where
  "decided_symbols entries = {k. \<exists>decision. (k, PDict decision) \<in> set entries}"

text \<open>
  A hold with zero target and zero cash change, as line 69 tests it; the current position
  value that the current features hold for a symbol (0.0 when its snapshot has no position
  state or no value in it, line 72); a symbol that the current features do not have; the
  target of the single record that a history holds for a symbol; and the record of lines
  81-88 with a given target.
\<close>

definition hold_zero :: "(string \<times> pyval) list \<Rightarrow> bool" where
  "hold_zero decision =
     (dict_get decision ''action'' (PStr ''hold'') = PStr ''hold''
      \<and> py_eq_zero (dict_get decision ''target_cash_amount'' (PFloat (Finite 0)))
      \<and> py_eq_zero (dict_get decision ''cash_change'' (PFloat (Finite 0))))"

definition live_position :: "(string \<times> pyval) list option \<Rightarrow> string \<Rightarrow> pyval option" where
  "live_position current_features s =
     (case current_features of
        None \<Rightarrow> None
      | Some cf \<Rightarrow>
          (case map_of cf s of
             Some (PDict feats) \<Rightarrow>
               (case dict_get feats ''position_state'' (PDict []) of
                  PDict position_state \<Rightarrow>
                    Some (dict_get position_state ''current_position_value'' (PFloat (Finite 0)))
                | v \<Rightarrow> None)
           | _ \<Rightarrow> None))"

definition not_in_features :: "(string \<times> pyval) list option \<Rightarrow> string \<Rightarrow> bool" where
  "not_in_features current_features s =
     (case current_features of None \<Rightarrow> True | Some cf \<Rightarrow> map_of cf s = None)"

definition reconstructed_target :: "(string \<times> pyval) list \<Rightarrow> string \<Rightarrow> pyval option" where
  "reconstructed_target history s =
     (case map_of history s of
        Some (PList [PDict r]) \<Rightarrow> map_of r ''target_cash_amount''
      | _ \<Rightarrow> None)"

definition record_with_target ::
  "pyval \<Rightarrow> (string \<times> pyval) list \<Rightarrow> pyval \<Rightarrow> pyval" where
  "record_with_target history_date decision target =
     PDict [(''date'', history_date),
            (''action'', dict_get decision ''action'' (PStr ''hold'')),
            (''cash_change'', dict_get decision ''cash_change'' (PFloat (Finite 0))),
            (''target_cash_amount'', target),
            (''reasons'', dict_get decision ''reasons'' (PList [])),
            (''confidence'', dict_get decision ''confidence'' (PFloat (Finite (1 / 2))))]"

text \<open>
  The date field of a candidate's market data; a candidate whose market data is a dict with
  neither a date nor a timestamp field; the date of the context when it is a non-empty text,
  else the current date.
\<close>

definition market_date :: "item \<Rightarrow> pyval option" where
  "market_date it =
     (case features_of it of
        PDict feats \<Rightarrow>
          (case dict_get feats ''market_data'' (PDict []) of
             PDict market_data \<Rightarrow> map_of market_data ''date''
           | v \<Rightarrow> None)
      | v \<Rightarrow> None)"

definition no_date_fields :: "item \<Rightarrow> bool" where
  "no_date_fields it =
     (case features_of it of
        PDict feats \<Rightarrow>
          (case dict_get feats ''market_data'' (PDict []) of
             PDict market_data \<Rightarrow>
               ''date'' \<notin> fst ` set market_data \<and> ''timestamp'' \<notin> fst ` set market_data
           | v \<Rightarrow> False)
      | v \<Rightarrow> False)"

definition ctx_or_now :: "string \<Rightarrow> ctx option \<Rightarrow> pyval" where
  "ctx_or_now now ctx =
     (case ctx of
        None \<Rightarrow> PStr now
      | Some c \<Rightarrow>
          (case date c of
             Some (DateLike formatted) \<Rightarrow> if formatted \<noteq> [] then PStr formatted else PStr now
           | Some (DateText text) \<Rightarrow> if text \<noteq> [] then PStr text else PStr now
           | _ \<Rightarrow> PStr now))"

text \<open>
  A feature snapshot without its fundamentals section; the position value of a candidate
  as a float (0.0 when it has none) and the float sum of these values over the candidates,
  added in list order from 0.0; the cash attribute of the portfolio of the context; the
  configured total cash (100000 when it is not configured); a field of the portfolio
  figures of a request; the symbols of a request; the last candidate with a given symbol.
\<close>

definition without_fundamentals :: "(string \<times> pyval) list \<Rightarrow> (string \<times> pyval) list" where
  "without_fundamentals sections = filter (\<lambda>(k, v). k \<noteq> ''fundamental_data'') sections"

definition candidate_position_value :: "'c env \<Rightarrow> item \<Rightarrow> pyfloat" where
  "candidate_position_value env it =
     (case features_of it of
        PDict feats \<Rightarrow>
          (case dict_get feats ''position_state'' (PDict []) of
             PDict position_state \<Rightarrow>
               (case as_float env (dict_get position_state ''current_position_value''
                                     (PFloat (Finite 0))) of
                  Some (Inr f) \<Rightarrow> f
                | _ \<Rightarrow> Finite 0)
           | v \<Rightarrow> Finite 0)
      | v \<Rightarrow> Finite 0)"

definition aggregate_position_value :: "'c env \<Rightarrow> item list \<Rightarrow> pyfloat" where
  "aggregate_position_value env features_list =
     foldl (fadd env) (Finite 0) (map (candidate_position_value env) features_list)"

definition ctx_cash :: "ctx option \<Rightarrow> pyval option" where
  "ctx_cash ctx = (case ctx of None \<Rightarrow> None | Some c \<Rightarrow> portfolio c)"

definition configured_total_cash :: "(string \<times> pyval) list option \<Rightarrow> pyval" where
  "configured_total_cash cfg =
     (case cfg of
        None \<Rightarrow> PInt 100000
      | Some c \<Rightarrow>
          (case map_of c ''portfolio'' of
             Some (PDict portfolio_cfg) \<Rightarrow> dict_get portfolio_cfg ''total_cash'' (PInt 100000)
           | _ \<Rightarrow> PInt 100000))"

definition snapshot :: "pyval \<Rightarrow> string \<Rightarrow> pyval option" where
  "snapshot filter_input k =
     (case filter_input of
        PDict request \<Rightarrow>
          (case map_of request ''portfolio_info'' of
             Some (PDict info) \<Rightarrow> map_of info k
           | _ \<Rightarrow> None)
      | v \<Rightarrow> None)"

definition request_symbols :: "pyval \<Rightarrow> (string \<times> pyval) list" where
  "request_symbols filter_input =
     (case filter_input of
        PDict request \<Rightarrow> (case map_of request ''symbols'' of Some (PDict symbols) \<Rightarrow> symbols | _ \<Rightarrow> [])
      | v \<Rightarrow> [])"

fun last_candidate :: "item list \<Rightarrow> string \<Rightarrow> item option" where
  "last_candidate [] s = None"
| "last_candidate (it # rest) s =
     (case last_candidate rest s of
        Some later \<Rightarrow> Some later
      | None \<Rightarrow> if symbol_of it = s then Some it else None)"

text \<open>The test of line 143.\<close>

definition llm_configured :: "(string \<times> pyval) list option \<Rightarrow> bool" where
  "llm_configured cfg = truthy (dict_get (cfg_or_empty cfg) ''llm'' (PDict []))"

section \<open>Dict comprehensions\<close>

lemma map_of_foldl_update:
  "map_of (foldl (\<lambda>d s. AList.update s (f s) d) d0 symbols) k =
     (if k \<in> set symbols then Some (f k) else map_of d0 k)"
  by (induction symbols arbitrary: d0) (auto simp: update_conv')

lemma map_of_dict_comprehension:
  "map_of (dict_comprehension symbols f) k = (if k \<in> set symbols then Some (f k) else None)"
  by (simp add: dict_comprehension_def map_of_foldl_update)

lemma keys_foldl_update:
  "fst ` set (foldl (\<lambda>d s. AList.update s (f s) d) d0 symbols) = fst ` set d0 \<union> set symbols"
  by (induction symbols arbitrary: d0) (auto simp: dom_update)

lemma distinct_foldl_update:
  "distinct (map fst d0) \<Longrightarrow>
   distinct (map fst (foldl (\<lambda>d s. AList.update s (f s) d) d0 symbols))"
  by (induction symbols arbitrary: d0) (auto simp: distinct_update)

lemma keys_dict_comprehension: "fst ` set (dict_comprehension symbols f) = set symbols"
  by (simp add: dict_comprehension_def keys_foldl_update)

lemma distinct_dict_comprehension: "distinct (map fst (dict_comprehension symbols f))"
  by (simp add: dict_comprehension_def distinct_foldl_update)

section \<open>The filter with the classification switched off\<close>

text \<open>
  C3. With \<^verbatim>\<open>enable_llm=False\<close> the function returns for every \<^verbatim>\<open>features_list\<close>, makes no
  call to the classification service, requires exactly the input symbols in input order,
  and gives every input symbol one reasoning entry, a non-empty string.
\<close>

theorem disabled_llm_requires_all:
  "\<exists>r. filter_stocks_needing_fundamental env features_list cfg False rid ctx pd dh = Inr (r, [])
     \<and> stocks_need_fundamental r = map PStr (symbols_list features_list)
     \<and> fst ` set (reasoning r) = set (symbols_list features_list)
     \<and> distinct (map fst (reasoning r))
     \<and> (\<forall>s \<in> set (symbols_list features_list).
           \<exists>msg. map_of (reasoning r) s = Some (PStr msg) \<and> msg \<noteq> [])"
proof -
  let ?r = "fallback_all (symbols_list features_list)
               (\<lambda>s. ''LLM not enabled, requiring fundamental analysis for '' @ s
                     @ '' as conservative fallback'')"
  have returned:
    "filter_stocks_needing_fundamental env features_list cfg False rid ctx pd dh = Inr (?r, [])"
    by (simp add: filter_stocks_needing_fundamental_def)
  have stocks: "stocks_need_fundamental ?r = map PStr (symbols_list features_list)"
    by (simp add: fallback_all_def)
  have keys: "fst ` set (reasoning ?r) = set (symbols_list features_list)"
    by (simp add: fallback_all_def keys_dict_comprehension)
  have once: "distinct (map fst (reasoning ?r))"
    by (simp add: fallback_all_def distinct_dict_comprehension)
  have reasons: "\<forall>s \<in> set (symbols_list features_list).
           \<exists>msg. map_of (reasoning ?r) s = Some (PStr msg) \<and> msg \<noteq> []"
    by (simp add: fallback_all_def map_of_dict_comprehension)
  from returned stocks keys once reasons show ?thesis
    by blast
qed

theorem disabled_llm_requires_all_witness:
  "\<exists>r. filter_stocks_needing_fundamental demo_env
          [\<lparr>symbol = Some ''AAPL'', features = None\<rparr>, \<lparr>symbol = None, features = None\<rparr>]
          None False PNone None PNone None = Inr (r, [])
     \<and> stocks_need_fundamental r = [PStr ''AAPL'', PStr ''UNKNOWN'']
     \<and> (\<exists>msg. map_of (reasoning r) ''AAPL'' = Some (PStr msg) \<and> msg \<noteq> [])"
  using disabled_llm_requires_all [of demo_env
          "[\<lparr>symbol = Some ''AAPL'', features = None\<rparr>, \<lparr>symbol = None, features = None\<rparr>]"
          None PNone None PNone None]
  by (auto simp: symbols_list_def symbol_of_def)

section \<open>Running the filter\<close>

lemma bind_err_eq_Inr: "bind_err m f = Inr y \<longleftrightarrow> (\<exists>x. m = Inr x \<and> f x = Inr y)"
  by (cases m) auto

lemma bind_err_eq_Inl: "bind_err m f = Inl e \<longleftrightarrow> m = Inl e \<or> (\<exists>x. m = Inr x \<and> f x = Inl e)"
  by (cases m) auto

lemma filter_enabled_returns:
  assumes "filter_stocks_needing_fundamental env features_list cfg True rid ctx pd dh = Inr (r, calls)"
  shows "\<exists>c. calls = [c] \<and> r = validate_response (symbols_list features_list) (generate_json env c)"
  using assms
  by (auto simp: filter_stocks_needing_fundamental_def Let_def bind_err_eq_Inr
           split: if_splits option.splits)

lemma filter_enabled_run:
  assumes "truthy (dict_get (cfg_or_empty cfg) ''llm'' (PDict []))"
      and "set_up_gateway env (cfg_or_empty cfg) = Inr g"
      and "build_filter_input env features_list cfg ctx pd dh = Inr filter_input"
      and "serialize env filter_input = Inr prompt"
      and "new_client env = None"
  shows "filter_stocks_needing_fundamental env features_list cfg True rid ctx pd dh =
           Inr (validate_response (symbols_list features_list)
                  (generate_json env
                     \<lparr>gateway = g, user_prompt = prompt,
                      trade_date = resolve_trade_date (today env) features_list ctx, run_id = rid\<rparr>),
                [\<lparr>gateway = g, user_prompt = prompt,
                  trade_date = resolve_trade_date (today env) features_list ctx, run_id = rid\<rparr>])"
  using assms by (simp add: filter_stocks_needing_fundamental_def Let_def)

lemma demo_llm: "truthy (dict_get (cfg_or_empty demo_cfg) ''llm'' (PDict []))"
  by (simp add: cfg_or_empty_def demo_cfg_def dict_get_def)

lemma demo_gateway_setup: "set_up_gateway demo_env (cfg_or_empty demo_cfg) = Inr demo_gateway"
  by (simp add: set_up_gateway_def demo_env_def demo_gateway_def cfg_or_empty_def demo_cfg_def
        dict_get_def llm_arguments_def model_choice_def get_nested_def py_float_def py_int_def
        py_str_def load_prompt_def lower_def float_of_int_def)

lemma demo_nearest: "nearest demo_env = Finite"
  by (simp add: demo_env_def)

lemma exact_input:
  assumes "nearest env = Finite"
  shows "build_filter_input env demo_features demo_cfg None PNone None = Inr (PDict
   [(''portfolio_info'', PDict [(''total_assets'', PInt 100000), (''available_cash'', PFloat (Finite 80000)), (''position_value'', PFloat (Finite 20000))]),
    (''symbols'', PDict [(''AAPL'', PDict [(''features'', PDict [(''market_data'', PDict [(''close'', PFloat (Finite 189))]),
          (''position_state'', PDict [(''current_position_value'', PFloat (Finite 20000))])])]),
       (''MSFT'', PDict [(''features'', PDict [(''market_data'', PDict [(''close'', PInt 410)])])])]),
    (''history'', PDict [])])"
  by (simp add: build_filter_input_def demo_features_def demo_cfg_def symbols_step_def features_of_def symbol_of_def
      dict_get_def float_iadd_def portfolio_info_def sub_float_def select_history_def
      build_history_from_previous_decisions_def fsub_def float_of_int_def assms)

lemmas demo_input = exact_input [OF demo_nearest]

lemma demo_date: "resolve_trade_date ''2024-03-18'' demo_features None = PStr ''2024-03-18''"
  by (simp add: resolve_trade_date_def extract_trade_date_def demo_features_def features_of_def dict_get_def)

lemma demo_run: "filter_stocks_needing_fundamental demo_env demo_features demo_cfg True PNone None PNone None
  = Inr (fallback_all [''AAPL'', ''MSFT''] (\<lambda>s. ''Error during filtering (connection refused), requiring fundamental analysis as fallback''),
      [demo_call])"
proof -
  have "filter_stocks_needing_fundamental demo_env demo_features demo_cfg True PNone None PNone None =
           Inr (validate_response (symbols_list demo_features)
                  (generate_json demo_env
                     \<lparr>gateway = demo_gateway, user_prompt = ''{}'',
                      trade_date = resolve_trade_date (today demo_env) demo_features None, run_id = PNone\<rparr>),
                [\<lparr>gateway = demo_gateway, user_prompt = ''{}'',
                  trade_date = resolve_trade_date (today demo_env) demo_features None, run_id = PNone\<rparr>])"
    by (rule filter_enabled_run [OF demo_llm demo_gateway_setup demo_input])
       (simp_all add: demo_env_def)
  moreover have "today demo_env = ''2024-03-18''"
    by (simp add: demo_env_def)
  moreover have "symbols_list demo_features = [''AAPL'', ''MSFT'']"
    by (simp add: symbols_list_def symbol_of_def demo_features_def)
  moreover have "validate_response [''AAPL'', ''MSFT''] (generate_json demo_env c) =
     fallback_all [''AAPL'', ''MSFT''] (\<lambda>s. ''Error during filtering (connection refused), requiring fundamental analysis as fallback'')" for c
    by (simp add: validate_response_def parse_response_def demo_env_def)
  ultimately show ?thesis
    by (simp add: demo_date demo_call_def)
qed

section \<open>Failure of the classification\<close>

lemma failure_reason_nonempty: "failure_reason answer \<noteq> []"
  by (cases answer) (simp_all add: failure_reason_def error_reason_def)

lemma raised_fallback:
  "validate_response symbols (Raises e) = fallback_all symbols (\<lambda>s. failure_reason (Raises e))"
  by (simp add: validate_response_def parse_response_def failure_reason_def error_reason_def)

lemma metadata_fallback:
  assumes "\<not> is_dict meta"
  shows "validate_response symbols (Returns data meta) =
           fallback_all symbols (\<lambda>s. failure_reason (Returns data meta))"
proof -
  from assms have "py_get meta ''cached'' (PBool False) =
      Inl (AttributeError (quoted (type_name meta) @ '' object has no attribute '' @ quoted ''get''))"
    by (cases meta) simp_all
  with assms show ?thesis
    by (simp add: validate_response_def parse_response_def failure_reason_def error_reason_def)
qed

lemma invalid_data_fallback:
  assumes "is_dict meta" and "\<not> truthy data \<or> \<not> is_dict data"
  shows "validate_response symbols (Returns data meta) =
           fallback_all symbols (\<lambda>s. failure_reason (Returns data meta))"
proof -
  from assms(1) obtain m where "meta = PDict m" by (cases meta) simp_all
  with assms(2) show ?thesis
    by (auto simp: validate_response_def parse_response_def failure_reason_def)
qed

lemma invalid_field_fallback:
  assumes "d \<noteq> []" and "map_of d ''stocks_need_fundamental'' = Some v" and "\<not> is_list v"
  shows "validate_response symbols (Returns (PDict d) (PDict m)) =
           fallback_all symbols (\<lambda>s. failure_reason (Returns (PDict d) (PDict m)))"
  using assms
  by (cases v) (simp_all add: validate_response_def parse_response_def failure_reason_def dict_get_def)

lemma malformed_answer_fallback:
  assumes "malformed_answer answer"
  shows "validate_response symbols answer = fallback_all symbols (\<lambda>s. failure_reason answer)"
proof (cases answer)
  case (Raises e)
  then show ?thesis by (simp add: raised_fallback)
next
  case (Returns data meta)
  show ?thesis
  proof (cases "is_dict meta")
    case False
    with Returns show ?thesis by (simp add: metadata_fallback)
  next
    case True
    then obtain m where meta: "meta = PDict m" by (cases meta) simp_all
    show ?thesis
    proof (cases "\<not> truthy data \<or> \<not> is_dict data")
      case True
      from invalid_data_fallback [OF \<open>is_dict meta\<close> True] Returns show ?thesis by simp
    next
      case False
      then obtain d where data: "data = PDict d" "d \<noteq> []" by (cases data) auto
      with assms Returns obtain v where v: "map_of d ''stocks_need_fundamental'' = Some v" "\<not> is_list v"
        by (auto simp: malformed_answer_def split: option.splits)
      from invalid_field_fallback [OF data(2) v] Returns meta data show ?thesis by simp
    qed
  qed
qed

text \<open>
  A dict without the field \<^verbatim>\<open>stocks_need_fundamental\<close> is not among the failures: line 324
  reads the field with the default \<^verbatim>\<open>[]\<close>, a list, and no symbol is required.
\<close>

lemma absent_field_requires_none:
  assumes "d \<noteq> []" and "map_of d ''stocks_need_fundamental'' = None"
  shows "stocks_need_fundamental (validate_response symbols (Returns (PDict d) (PDict m))) = []"
  using assms
  by (simp add: validate_response_def parse_response_def dict_get_def)

text \<open>
  C1. Whenever the call to the classification service raises, or returns data that is empty,
  \<^verbatim>\<open>None\<close> or not a dict, or a dict whose \<^verbatim>\<open>stocks_need_fundamental\<close> is not a list, the
  function returns all input symbols in input order, and its reasoning has exactly the input
  symbols as keys, each once and each with the reason of this failure: the text of the
  exception that was raised, cut at 50 characters, inside the message of line 372, or the
  message of line 319 for invalid data, or the message of line 333 for a field that is not
  a list. The reason is not empty.
\<close>

theorem service_failure_requires_all:
  assumes "filter_stocks_needing_fundamental env features_list cfg True rid ctx pd dh = Inr (r, [c])"
      and "malformed_answer (generate_json env c)"
  shows "stocks_need_fundamental r = map PStr (symbols_list features_list)
       \<and> fst ` set (reasoning r) = set (symbols_list features_list)
       \<and> distinct (map fst (reasoning r))
       \<and> (\<forall>s \<in> set (symbols_list features_list).
             map_of (reasoning r) s = Some (PStr (failure_reason (generate_json env c))))
       \<and> failure_reason (generate_json env c) \<noteq> []"
proof -
  from assms(1) have "r = validate_response (symbols_list features_list) (generate_json env c)"
    by (auto dest: filter_enabled_returns)
  with malformed_answer_fallback [OF assms(2)]
  have r: "r = fallback_all (symbols_list features_list) (\<lambda>s. failure_reason (generate_json env c))"
    by simp
  show ?thesis unfolding r
    by (simp add: fallback_all_def keys_dict_comprehension distinct_dict_comprehension
          map_of_dict_comprehension failure_reason_nonempty)
qed

theorem service_failure_requires_all_witness:
  "malformed_answer (generate_json demo_env demo_call)
   \<and> (\<exists>r. filter_stocks_needing_fundamental demo_env demo_features demo_cfg True PNone None PNone None
            = Inr (r, [demo_call])
          \<and> stocks_need_fundamental r = [PStr ''AAPL'', PStr ''MSFT'']
          \<and> map_of (reasoning r) ''MSFT'' =
              Some (PStr ''Error during filtering (connection refused), requiring fundamental analysis as fallback''))"
proof -
  have bad: "malformed_answer (generate_json demo_env demo_call)"
    by (simp add: malformed_answer_def demo_env_def)
  have reason: "failure_reason (generate_json demo_env demo_call) =
      ''Error during filtering (connection refused), requiring fundamental analysis as fallback''"
    by (simp add: failure_reason_def error_reason_def demo_env_def)
  from service_failure_requires_all [OF demo_run bad] bad demo_run reason show ?thesis
    by (simp add: symbols_list_def symbol_of_def demo_features_def)
qed

section \<open>A well-formed answer\<close>

lemma filter_hallucinated_hashable:
  "\<forall>x \<in> set need. \<not> is_list x \<and> \<not> is_dict x \<Longrightarrow>
   filter_hallucinated symbols need = Inr (input_subsequence symbols need)"
proof (induction need)
  case Nil
  then show ?case by (simp add: input_subsequence_def)
next
  case (Cons x xs)
  then have "filter_hallucinated symbols xs = Inr (input_subsequence symbols xs)" by simp
  moreover from Cons.prems have "in_input_symbols symbols x = Inr (x \<in> PStr ` set symbols)"
    by (cases x) auto
  ultimately show ?case by (simp add: input_subsequence_def)
qed

lemma first_unhashable_None:
  "first_unhashable need = None \<longleftrightarrow> (\<forall>x \<in> set need. \<not> is_list x \<and> \<not> is_dict x)"
  by (auto simp: first_unhashable_def find_None_iff)

lemma first_unhashable_Some:
  "first_unhashable need = Some v \<Longrightarrow> v \<in> set need \<and> (is_list v \<or> is_dict v)"
  by (auto simp: first_unhashable_def find_Some_iff)

lemma in_input_symbols_unhashable:
  "is_list v \<or> is_dict v \<Longrightarrow>
   in_input_symbols symbols v = Inl (TypeError (''unhashable type: '' @ quoted (type_name v)))"
  by (cases v) simp_all

lemma in_input_symbols_hashable:
  "\<not> is_list v \<Longrightarrow> \<not> is_dict v \<Longrightarrow> \<exists>keep. in_input_symbols symbols v = Inr keep"
  by (cases v) auto

lemma filter_hallucinated_unhashable:
  "first_unhashable need = Some v \<Longrightarrow>
   filter_hallucinated symbols need = Inl (TypeError (''unhashable type: '' @ quoted (type_name v)))"
proof (induction need)
  case Nil
  then show ?case by (simp add: first_unhashable_def)
next
  case (Cons x xs)
  show ?case
  proof (cases "is_list x \<or> is_dict x")
    case True
    with Cons.prems have "v = x" by (simp add: first_unhashable_def)
    with True show ?thesis by (simp add: in_input_symbols_unhashable)
  next
    case False
    with Cons.prems have "first_unhashable xs = Some v" by (simp add: first_unhashable_def)
    then have rest: "filter_hallucinated symbols xs =
        Inl (TypeError (''unhashable type: '' @ quoted (type_name v)))"
      by (rule Cons.IH)
    from False obtain keep where "in_input_symbols symbols x = Inr keep"
      using in_input_symbols_hashable [of x symbols] by auto
    with rest show ?thesis by simp
  qed
qed

lemma map_of_ensure_reasoning:
  "map_of (ensure_reasoning need symbols given) k =
     (case map_of given k of
        Some v \<Rightarrow> Some v
      | None \<Rightarrow> if k \<in> set symbols then Some (default_reason need k) else None)"
proof (induction symbols arbitrary: given)
  case Nil
  then show ?case by (simp split: option.splits)
next
  case (Cons s symbols)
  show ?case
    by (auto simp: Cons.IH update_conv' default_reason_def map_of_eq_None_iff [symmetric]
             split: option.splits)
qed

lemma keys_ensure_reasoning:
  "fst ` set (ensure_reasoning need symbols given) = fst ` set given \<union> set symbols"
  by (induction symbols arbitrary: given) (auto simp: dom_update)

lemma distinct_ensure_reasoning:
  "distinct (map fst given) \<Longrightarrow> distinct (map fst (ensure_reasoning need symbols given))"
  by (induction symbols arbitrary: given) (auto simp: distinct_update)

lemma wellformed_answer_parsed:
  assumes "d \<noteq> []"
      and "map_of d ''stocks_need_fundamental'' = Some (PList need)"
      and "\<forall>x \<in> set need. \<not> is_list x \<and> \<not> is_dict x"
  shows "validate_response symbols (Returns (PDict d) (PDict meta)) =
           \<lparr>stocks_need_fundamental = input_subsequence symbols need,
            reasoning = ensure_reasoning need symbols (given_reasoning d)\<rparr>"
proof -
  have "(case dict_get d ''reasoning'' (PDict []) of PDict r \<Rightarrow> r | v \<Rightarrow> []) = given_reasoning d"
    by (simp add: dict_get_def given_reasoning_def split: option.splits pyval.splits)
  with assms show ?thesis
    by (simp add: validate_response_def parse_response_def dict_get_def filter_hallucinated_hashable)
qed

lemma unhashable_answer_fallback:
  assumes "d \<noteq> []"
      and "map_of d ''stocks_need_fundamental'' = Some (PList need)"
      and "first_unhashable need = Some v"
  shows "validate_response symbols (Returns (PDict d) (PDict meta)) =
           fallback_all symbols
             (\<lambda>s. error_reason (TypeError (''unhashable type: '' @ quoted (type_name v))))"
  using assms(1,2)
  by (simp add: validate_response_def parse_response_def dict_get_def error_reason_def
        filter_hallucinated_unhashable [OF assms(3)])

lemma answering_gateway_setup:
  "set_up_gateway (answering_env answer) (cfg_or_empty demo_cfg) = Inr demo_gateway"
  by (simp add: set_up_gateway_def answering_env_def demo_env_def demo_gateway_def cfg_or_empty_def
        demo_cfg_def dict_get_def llm_arguments_def model_choice_def get_nested_def py_float_def
        py_int_def py_str_def load_prompt_def lower_def float_of_int_def)

lemma answering_run:
  "filter_stocks_needing_fundamental (answering_env answer) demo_features demo_cfg True PNone None PNone None =
     Inr (validate_response [''AAPL'', ''MSFT''] answer, [demo_call])"
proof -
  have "filter_stocks_needing_fundamental (answering_env answer) demo_features demo_cfg True PNone None PNone None =
           Inr (validate_response (symbols_list demo_features)
                  (generate_json (answering_env answer)
                     \<lparr>gateway = demo_gateway, user_prompt = ''{}'',
                      trade_date = resolve_trade_date (today (answering_env answer)) demo_features None,
                      run_id = PNone\<rparr>),
                [\<lparr>gateway = demo_gateway, user_prompt = ''{}'',
                  trade_date = resolve_trade_date (today (answering_env answer)) demo_features None,
                  run_id = PNone\<rparr>])"
    by (rule filter_enabled_run [OF demo_llm answering_gateway_setup exact_input])
       (simp_all add: demo_env_def answering_env_def)
  moreover have "today (answering_env answer) = ''2024-03-18''"
    by (simp add: demo_env_def answering_env_def)
  moreover have "symbols_list demo_features = [''AAPL'', ''MSFT'']"
    by (simp add: symbols_list_def symbol_of_def demo_features_def)
  moreover have "generate_json (answering_env answer) c = answer" for c
    by (simp add: answering_env_def)
  ultimately show ?thesis
    by (simp add: demo_date demo_call_def)
qed

lemma demo_symbols: "symbols_list demo_features = [''AAPL'', ''MSFT'']"
  by (simp add: symbols_list_def symbol_of_def demo_features_def)

text \<open>
  C2, as the claim states it, fails twice. A list that holds a dict or a list makes the
  membership test of line 351 raise, and the function answers with all input symbols, not
  with the symbols of the service's list that belong to the input (here there are none).
  And an answer whose list holds symbols only, returned with metadata that is not a dict
  (here \<^verbatim>\<open>None\<close>), makes line 309 raise: the function answers with all input symbols,
  AAPL among them, where the symbols of the service's list that belong to the input are
  MSFT alone.
\<close>

theorem nested_answer_counterexample:
  "filter_stocks_needing_fundamental (answering_env nested_answer) demo_features demo_cfg True
       PNone None PNone None =
     Inr (\<lparr>stocks_need_fundamental = [PStr ''AAPL'', PStr ''MSFT''],
           reasoning =
             [(''AAPL'', PStr (''Error during filtering (unhashable type: '' @ quoted ''dict''
                               @ ''), requiring fundamental analysis as fallback'')),
              (''MSFT'', PStr (''Error during filtering (unhashable type: '' @ quoted ''dict''
                               @ ''), requiring fundamental analysis as fallback''))]\<rparr>,
          [demo_call])
   \<and> input_subsequence (symbols_list demo_features) [PDict [(''symbol'', PStr ''MSFT'')]] = []
   \<and> filter_stocks_needing_fundamental (answering_env unlogged_answer) demo_features demo_cfg True
       PNone None PNone None =
     Inr (\<lparr>stocks_need_fundamental = [PStr ''AAPL'', PStr ''MSFT''],
           reasoning =
             [(''AAPL'', PStr (''Error during filtering ('' @ quoted ''NoneType''
                               @ '' object has no attribute '' @ quoted ''get''
                               @ ''), requiring fundamental analysis as fallback'')),
              (''MSFT'', PStr (''Error during filtering ('' @ quoted ''NoneType''
                               @ '' object has no attribute '' @ quoted ''get''
                               @ ''), requiring fundamental analysis as fallback''))]\<rparr>,
          [demo_call])
   \<and> input_subsequence (symbols_list demo_features) [PStr ''MSFT'', PStr ''TSLA''] = [PStr ''MSFT'']"
  by (simp add: answering_run demo_symbols input_subsequence_def nested_answer_def unlogged_answer_def
        validate_response_def parse_response_def dict_get_def fallback_all_def dict_comprehension_def
        quoted_def)

text \<open>
  C2, amended. The service returns a dict whose \<^verbatim>\<open>stocks_need_fundamental\<close> is a list.
  When the metadata is a dict and the list holds hashable values only (no nested list or
  dict), the function returns the symbols of that list that belong to the input, in the
  service's order; the keys of the reasoning are those the service gave and the input
  symbols, each once; and every input symbol has the service's reason or, when the service
  gave none, the default that says whether the service listed it. When the metadata is a
  dict and the list holds a list or a dict, the function returns the conservative answer:
  all input symbols, each with the TypeError of the first such element as reason. When the
  metadata is not a dict, the function returns the conservative answer too: all input
  symbols, each with the AttributeError of line 309 as reason.
\<close>

theorem wellformed_answer_sanitized:
  assumes "filter_stocks_needing_fundamental env features_list cfg True rid ctx pd dh = Inr (r, [c])"
      and "generate_json env c = Returns (PDict d) meta"
      and "map_of d ''stocks_need_fundamental'' = Some (PList need)"
  shows "(is_dict meta \<and> (\<forall>x \<in> set need. \<not> is_list x \<and> \<not> is_dict x) \<longrightarrow>
            stocks_need_fundamental r = input_subsequence (symbols_list features_list) need
          \<and> fst ` set (reasoning r) = fst ` set (given_reasoning d) \<union> set (symbols_list features_list)
          \<and> (distinct (map fst (given_reasoning d)) \<longrightarrow> distinct (map fst (reasoning r)))
          \<and> (\<forall>s \<in> set (symbols_list features_list).
                map_of (reasoning r) s =
                  Some (case map_of (given_reasoning d) s of
                          Some v \<Rightarrow> v
                        | None \<Rightarrow> default_reason need s)))
       \<and> (\<forall>v. is_dict meta \<and> first_unhashable need = Some v \<longrightarrow>
            r = fallback_all (symbols_list features_list)
                  (\<lambda>s. error_reason (TypeError (''unhashable type: '' @ quoted (type_name v)))))
       \<and> (\<not> is_dict meta \<longrightarrow>
            r = fallback_all (symbols_list features_list)
                  (\<lambda>s. error_reason (AttributeError (quoted (type_name meta)
                                         @ '' object has no attribute '' @ quoted ''get''))))"
proof -
  from assms(3) have "d \<noteq> []" by auto
  from assms(1,2) have answer: "r = validate_response (symbols_list features_list) (Returns (PDict d) meta)"
    by (auto dest: filter_enabled_returns)
  have sanitized:
    "stocks_need_fundamental r = input_subsequence (symbols_list features_list) need
     \<and> fst ` set (reasoning r) = fst ` set (given_reasoning d) \<union> set (symbols_list features_list)
     \<and> (distinct (map fst (given_reasoning d)) \<longrightarrow> distinct (map fst (reasoning r)))
     \<and> (\<forall>s \<in> set (symbols_list features_list).
           map_of (reasoning r) s =
             Some (case map_of (given_reasoning d) s of
                     Some v \<Rightarrow> v
                   | None \<Rightarrow> default_reason need s))"
    if "is_dict meta" and hashable: "\<forall>x \<in> set need. \<not> is_list x \<and> \<not> is_dict x"
  proof -
    from that(1) obtain m where "meta = PDict m" by (cases meta) simp_all
    with answer have r: "r = \<lparr>stocks_need_fundamental = input_subsequence (symbols_list features_list) need,
                     reasoning = ensure_reasoning need (symbols_list features_list) (given_reasoning d)\<rparr>"
      using wellformed_answer_parsed [OF \<open>d \<noteq> []\<close> assms(3) hashable] by simp
    show ?thesis unfolding r
      by (auto simp: keys_ensure_reasoning distinct_ensure_reasoning map_of_ensure_reasoning
               split: option.splits)
  qed
  have nested:
    "r = fallback_all (symbols_list features_list)
           (\<lambda>s. error_reason (TypeError (''unhashable type: '' @ quoted (type_name v))))"
    if "is_dict meta" and "first_unhashable need = Some v" for v
  proof -
    from that(1) obtain m where "meta = PDict m" by (cases meta) simp_all
    with answer show ?thesis
      using unhashable_answer_fallback [OF \<open>d \<noteq> []\<close> assms(3) that(2)] by simp
  qed
  have unlogged:
    "r = fallback_all (symbols_list features_list)
           (\<lambda>s. error_reason (AttributeError (quoted (type_name meta)
                                  @ '' object has no attribute '' @ quoted ''get'')))"
    if "\<not> is_dict meta"
    using that answer by (simp add: metadata_fallback failure_reason_def)
  from sanitized nested unlogged show ?thesis
    by blast
qed

theorem wellformed_answer_sanitized_witness:
  "\<exists>r. filter_stocks_needing_fundamental (answering_env demo_answer) demo_features demo_cfg True
          PNone None PNone None = Inr (r, [demo_call])
     \<and> stocks_need_fundamental r = [PStr ''MSFT'']
     \<and> map_of (reasoning r) ''MSFT'' = Some (PStr ''Earnings due this week'')
     \<and> map_of (reasoning r) ''AAPL'' =
         Some (PStr ''Technical analysis sufficient (no specific reasoning provided)'')"
proof -
  have answer: "generate_json (answering_env demo_answer) demo_call =
      Returns (PDict [(''stocks_need_fundamental'', PList [PStr ''MSFT'', PStr ''TSLA'']),
               (''reasoning'', PDict [(''MSFT'', PStr ''Earnings due this week''),
                                      (''TSLA'', PStr ''High volatility'')])])
       (PDict [(''cached'', PBool False), (''latency_ms'', PInt 420)])"
    by (simp add: answering_env_def demo_answer_def)
  have field: "map_of [(''stocks_need_fundamental'', PList [PStr ''MSFT'', PStr ''TSLA'']),
               (''reasoning'', PDict [(''MSFT'', PStr ''Earnings due this week''),
                                      (''TSLA'', PStr ''High volatility'')])] ''stocks_need_fundamental''
       = Some (PList [PStr ''MSFT'', PStr ''TSLA''])"
    by simp
  from wellformed_answer_sanitized [OF answering_run answer field] answering_run
  show ?thesis
    by (simp add: demo_symbols input_subsequence_def given_reasoning_def default_reason_def)
qed

text \<open>
  C10. On the same path every reasoning entry the service gave is returned unchanged,
  whether or not its key is an input symbol: only the list of required symbols is filtered,
  so the keys of the returned reasoning can be more than the input symbols.
\<close>

theorem service_reasoning_retained:
  assumes "filter_stocks_needing_fundamental env features_list cfg True rid ctx pd dh = Inr (r, [c])"
      and "generate_json env c = Returns (PDict d) (PDict meta)"
      and "map_of d ''stocks_need_fundamental'' = Some (PList need)"
      and "\<forall>x \<in> set need. \<not> is_list x \<and> \<not> is_dict x"
  shows "(\<forall>k v. map_of (given_reasoning d) k = Some v \<longrightarrow> map_of (reasoning r) k = Some v)
       \<and> fst ` set (given_reasoning d) \<subseteq> fst ` set (reasoning r)"
proof -
  from assms(3) have "d \<noteq> []" by auto
  from assms(1,2) have "r = validate_response (symbols_list features_list) (Returns (PDict d) (PDict meta))"
    by (auto dest: filter_enabled_returns)
  then have r: "r = \<lparr>stocks_need_fundamental = input_subsequence (symbols_list features_list) need,
                     reasoning = ensure_reasoning need (symbols_list features_list) (given_reasoning d)\<rparr>"
    using wellformed_answer_parsed [OF \<open>d \<noteq> []\<close> assms(3,4)] by simp
  show ?thesis unfolding r
    by (auto simp: keys_ensure_reasoning map_of_ensure_reasoning)
qed

theorem service_reasoning_retained_witness:
  "\<exists>r. filter_stocks_needing_fundamental (answering_env demo_answer) demo_features demo_cfg True
          PNone None PNone None = Inr (r, [demo_call])
     \<and> map_of (reasoning r) ''TSLA'' = Some (PStr ''High volatility'')
     \<and> ''TSLA'' \<in> fst ` set (reasoning r)
     \<and> ''TSLA'' \<notin> set (symbols_list demo_features)
     \<and> set (symbols_list demo_features) \<subseteq> fst ` set (reasoning r)"
proof -
  let ?r = "validate_response [''AAPL'', ''MSFT''] demo_answer"
  have answer: "generate_json (answering_env demo_answer) demo_call =
      Returns (PDict [(''stocks_need_fundamental'', PList [PStr ''MSFT'', PStr ''TSLA'']),
               (''reasoning'', PDict [(''MSFT'', PStr ''Earnings due this week''),
                                      (''TSLA'', PStr ''High volatility'')])])
       (PDict [(''cached'', PBool False), (''latency_ms'', PInt 420)])"
    by (simp add: answering_env_def demo_answer_def)
  have field: "map_of [(''stocks_need_fundamental'', PList [PStr ''MSFT'', PStr ''TSLA'']),
               (''reasoning'', PDict [(''MSFT'', PStr ''Earnings due this week''),
                                      (''TSLA'', PStr ''High volatility'')])] ''stocks_need_fundamental''
       = Some (PList [PStr ''MSFT'', PStr ''TSLA''])"
    by simp
  have hashable: "\<forall>x \<in> set [PStr ''MSFT'', PStr ''TSLA'']. \<not> is_list x \<and> \<not> is_dict x"
    by simp
  have given: "map_of (given_reasoning
       [(''stocks_need_fundamental'', PList [PStr ''MSFT'', PStr ''TSLA'']),
               (''reasoning'', PDict [(''MSFT'', PStr ''Earnings due this week''),
                                      (''TSLA'', PStr ''High volatility'')])]) ''TSLA''
      = Some (PStr ''High volatility'')"
    by (simp add: given_reasoning_def)
  have keys: "fst ` set (reasoning ?r) = {''MSFT'', ''TSLA'', ''AAPL''}"
    by (simp add: demo_answer_def wellformed_answer_parsed given_reasoning_def keys_ensure_reasoning)
  have outside: "''TSLA'' \<notin> set (symbols_list demo_features)"
    by (simp add: demo_symbols)
  have inside: "set (symbols_list demo_features) \<subseteq> fst ` set (reasoning ?r)"
    unfolding keys by (simp add: demo_symbols)
  have member: "''TSLA'' \<in> fst ` set (reasoning ?r)"
    unfolding keys by simp
  from service_reasoning_retained [OF answering_run answer field hashable] given
  have "map_of (reasoning ?r) ''TSLA'' = Some (PStr ''High volatility'')"
    by blast
  with answering_run outside inside member show ?thesis
    by blast
qed

section \<open>The history loop\<close>

lemma history_loop_fails:
  "entry_fails cf d kv \<Longrightarrow> \<exists>e. history_loop cf d (kv # rest) h = (h, Some e)"
  by (cases kv; cases "snd kv")
     (auto simp: entry_fails_def isl_def split: sum.splits)

lemma history_loop_append:
  "\<forall>x \<in> set pre. \<not> entry_fails cf d x \<Longrightarrow>
   history_loop cf d (pre @ rest) h = history_loop cf d rest (fst (history_loop cf d pre h))"
proof (induction pre arbitrary: h)
  case Nil
  then show ?case by simp
next
  case (Cons kv pre)
  obtain k v where kv: "kv = (k, v)" by (cases kv)
  show ?case
  proof (cases v)
    case (PDict decision)
    with Cons.prems kv obtain r where "history_record cf d k decision = Inr r"
      by (cases "history_record cf d k decision") (auto simp: entry_fails_def)
    with Cons kv PDict show ?thesis by simp
  qed (use Cons kv in simp_all)
qed

lemma history_loop_keys:
  "\<forall>x \<in> set entries. \<not> entry_fails cf d x \<Longrightarrow>
   fst ` set (fst (history_loop cf d entries h)) = fst ` set h \<union> decided_symbols entries"
proof (induction entries arbitrary: h)
  case Nil
  then show ?case by (simp add: decided_symbols_def)
next
  case (Cons kv entries)
  obtain k v where kv: "kv = (k, v)" by (cases kv)
  have step: "decided_symbols ((k, v) # entries) =
      (if is_dict v then insert k (decided_symbols entries) else decided_symbols entries)"
    by (cases v) (auto simp: decided_symbols_def)
  show ?case
  proof (cases v)
    case (PDict decision)
    with Cons.prems kv obtain r where "history_record cf d k decision = Inr r"
      by (cases "history_record cf d k decision") (auto simp: entry_fails_def)
    with Cons kv PDict step show ?thesis by (simp add: dom_update)
  qed (use Cons kv step in simp_all)
qed

lemma history_loop_other:
  "s \<notin> fst ` set entries \<Longrightarrow> map_of (fst (history_loop cf d entries h)) s = map_of h s"
proof (induction entries arbitrary: h)
  case Nil
  then show ?case by simp
next
  case (Cons kv entries)
  obtain k v where kv: "kv = (k, v)" by (cases kv)
  show ?case
  proof (cases v)
    case (PDict decision)
    with Cons kv show ?thesis
      by (cases "history_record cf d k decision") (auto simp: update_conv')
  qed (use Cons kv in simp_all)
qed

lemma history_loop_reached:
  assumes "distinct (map fst (pre @ (s, PDict decision) # post))"
      and "\<forall>x \<in> set pre. \<not> entry_fails cf d x"
      and "history_record cf d s decision = Inr r"
  shows "map_of (fst (history_loop cf d (pre @ (s, PDict decision) # post) [])) s = Some (PList [r])"
proof -
  from assms(1) have "s \<notin> fst ` set post" by auto
  with assms(2,3) show ?thesis
    by (simp add: history_loop_append history_loop_other update_conv')
qed

lemma build_history_dict:
  "entries \<noteq> [] \<Longrightarrow>
   build_history_from_previous_decisions (PDict entries) cf =
     fst (history_loop cf (history_date_of entries) (filter (\<lambda>(k, v). k \<noteq> ''__meta__'') entries) [])"
  by (simp add: build_history_from_previous_decisions_def build_history_try_def)

lemma build_history_not_dict:
  "\<not> is_dict pd \<Longrightarrow> build_history_from_previous_decisions pd cf = []"
  by (cases pd) (simp_all add: build_history_from_previous_decisions_def build_history_try_def)

lemma repair_target_positive:
  "live_position cf s = Some p \<Longrightarrow> py_gt_zero p = Inr b \<Longrightarrow>
   repair_target cf s t = Inr (if b then p else t)"
  by (auto simp: live_position_def repair_target_def dict_get_def
           split: option.splits pyval.splits)

lemma repair_target_absent:
  "not_in_features cf s \<Longrightarrow> repair_target cf s t = Inr t"
  by (auto simp: not_in_features_def repair_target_def split: option.splits)

lemma history_record_alt:
  "history_record cf d s decision =
     bind_err
       (if hold_zero decision
        then repair_target cf s (dict_get decision ''target_cash_amount'' (PFloat (Finite 0)))
        else Inr (dict_get decision ''target_cash_amount'' (PFloat (Finite 0))))
       (\<lambda>target. Inr (record_with_target d decision target))"
  by (simp add: history_record_def hold_zero_def record_with_target_def Let_def)

lemma history_record_repaired:
  assumes "hold_zero decision" "live_position cf s = Some p" "py_gt_zero p = Inr True"
  shows "history_record cf d s decision = Inr (record_with_target d decision p)"
  using assms(1) repair_target_positive [OF assms(2,3)]
  by (simp add: history_record_alt)

lemma history_record_preserved:
  assumes "\<not> py_eq_zero (dict_get decision ''cash_change'' (PFloat (Finite 0)))
           \<or> not_in_features cf s
           \<or> (live_position cf s = Some p \<and> py_gt_zero p = Inr False)"
  shows "history_record cf d s decision =
           Inr (record_with_target d decision (dict_get decision ''target_cash_amount'' (PFloat (Finite 0))))"
proof (cases "hold_zero decision")
  case False
  then show ?thesis
    by (simp add: history_record_alt)
next
  case True
  with assms have "not_in_features cf s \<or> (live_position cf s = Some p \<and> py_gt_zero p = Inr False)"
    by (auto simp: hold_zero_def)
  then have "repair_target cf s (dict_get decision ''target_cash_amount'' (PFloat (Finite 0))) =
               Inr (dict_get decision ''target_cash_amount'' (PFloat (Finite 0)))"
    using repair_target_positive [of cf s p False] by (auto simp: repair_target_absent)
  with True show ?thesis
    by (simp add: history_record_alt)
qed

lemma reconstructed_target_record:
  "map_of history s = Some (PList [record_with_target d decision t]) \<Longrightarrow>
   reconstructed_target history s = Some t"
  by (simp add: reconstructed_target_def record_with_target_def)

lemma demo_entries_split:
  "filter (\<lambda>(k, v). k \<noteq> ''__meta__'') demo_entries =
     [(''MSFT'', PDict msft_decision)] @ (''AAPL'', PDict aapl_decision) # [(''NVDA'', PDict nvda_decision)]"
  by (simp add: demo_entries_def)

lemma demo_entries_distinct: "distinct (map fst demo_entries)"
  by (simp add: demo_entries_def)

lemma demo_date_of: "history_date_of demo_entries = PStr ''2024-03-15''"
  by (simp add: history_date_of_def demo_entries_def)

lemma msft_succeeds: "\<not> entry_fails cf d (''MSFT'', PDict msft_decision)"
  by (simp add: entry_fails_def history_record_def msft_decision_def dict_get_def)

lemma nvda_succeeds: "\<not> entry_fails cf d (''NVDA'', PDict nvda_decision)"
  by (simp add: entry_fails_def history_record_def nvda_decision_def dict_get_def)

lemma aapl_succeeds: "\<not> entry_fails demo_current d (''AAPL'', PDict aapl_decision)"
  by (simp add: entry_fails_def history_record_def aapl_decision_def dict_get_def
        repair_target_def demo_current_def)

lemma aapl_fails: "entry_fails broken_current d (''AAPL'', PDict aapl_decision)"
  by (simp add: entry_fails_def history_record_def aapl_decision_def dict_get_def
        repair_target_def broken_current_def)

lemma decided_symbols_Nil: "decided_symbols [] = {}"
  by (simp add: decided_symbols_def)

lemma decided_symbols_Cons:
  "decided_symbols ((k, v) # entries) =
     (if is_dict v then insert k (decided_symbols entries) else decided_symbols entries)"
  by (cases v) (auto simp: decided_symbols_def)

section \<open>Repair of zero-valued holds\<close>

text \<open>
  C5, as the claim states it, fails: the repair of a symbol is lost when the entry of an
  earlier symbol raises. With two zero-valued holds, for AAPL and NVDA, and current
  features that hold \<^verbatim>\<open>None\<close> for AAPL's position value and 1500 for NVDA's, the
  comparison of line 73 raises at AAPL, the loop ends, and the history has no record for
  NVDA, although NVDA's decision is a hold with target 0 and cash change 0 and its current
  position value is positive.
\<close>

theorem blocked_repair_counterexample:
  "map_of blocked_entries ''NVDA'' = Some (PDict aapl_decision)
   \<and> hold_zero aapl_decision
   \<and> live_position blocked_current ''NVDA'' = Some (PFloat (Finite 1500))
   \<and> py_gt_zero (PFloat (Finite 1500)) = Inr True
   \<and> build_history_from_previous_decisions (PDict blocked_entries) blocked_current = []
   \<and> reconstructed_target
        (build_history_from_previous_decisions (PDict blocked_entries) blocked_current) ''NVDA'' = None"
  by (simp add: blocked_entries_def blocked_current_def aapl_decision_def hold_zero_def dict_get_def
        live_position_def build_history_from_previous_decisions_def build_history_try_def
        history_record_def repair_target_def reconstructed_target_def)

text \<open>
  C5, amended. Take a symbol of the prior decisions whose entry is reached by the loop (no
  entry before it raises). If its decision is a hold with target 0 and cash change 0, and
  the current features give the symbol a position value \<open>p\<close> with \<open>p > 0\<close>, the record built
  for it has target \<open>p\<close>. If the cash change is not zero, or the symbol is not in the
  current features, or its position value is a number that is not positive (0.0 when its
  snapshot has no position state, or a position state without the value), the record has
  the recorded target (0.0 when none is recorded).
\<close>

theorem hold_repair:
  assumes "filter (\<lambda>(k, v). k \<noteq> ''__meta__'') entries = pre @ (s, PDict decision) # post"
      and "distinct (map fst entries)"
      and "\<forall>x \<in> set pre. \<not> entry_fails cf (history_date_of entries) x"
  shows "(hold_zero decision \<and> live_position cf s = Some p \<and> py_gt_zero p = Inr True \<longrightarrow>
            reconstructed_target (build_history_from_previous_decisions (PDict entries) cf) s = Some p)
       \<and> (\<not> py_eq_zero (dict_get decision ''cash_change'' (PFloat (Finite 0)))
            \<or> not_in_features cf s
            \<or> (live_position cf s = Some p \<and> py_gt_zero p = Inr False) \<longrightarrow>
            reconstructed_target (build_history_from_previous_decisions (PDict entries) cf) s =
              Some (dict_get decision ''target_cash_amount'' (PFloat (Finite 0))))"
proof -
  let ?d = "history_date_of entries"
  from assms(1) have nonempty: "entries \<noteq> []" by auto
  from assms(2) have "distinct (map fst (filter (\<lambda>(k, v). k \<noteq> ''__meta__'') entries))"
    by (rule distinct_map_filter)
  with assms(1) have dist: "distinct (map fst (pre @ (s, PDict decision) # post))" by simp
  have reached: "map_of (build_history_from_previous_decisions (PDict entries) cf) s = Some (PList [r])"
    if "history_record cf ?d s decision = Inr r" for r
    using history_loop_reached [OF dist assms(3) that]
    by (simp add: build_history_dict [OF nonempty] assms(1))
  have repaired: "reconstructed_target (build_history_from_previous_decisions (PDict entries) cf) s = Some p"
    if "hold_zero decision" "live_position cf s = Some p" "py_gt_zero p = Inr True"
    using reached [OF history_record_repaired [OF that]] by (rule reconstructed_target_record)
  have preserved: "reconstructed_target (build_history_from_previous_decisions (PDict entries) cf) s =
              Some (dict_get decision ''target_cash_amount'' (PFloat (Finite 0)))"
    if "\<not> py_eq_zero (dict_get decision ''cash_change'' (PFloat (Finite 0)))
            \<or> not_in_features cf s
            \<or> (live_position cf s = Some p \<and> py_gt_zero p = Inr False)"
    using reached [OF history_record_preserved [OF that]] by (rule reconstructed_target_record)
  from repaired preserved show ?thesis
    by blast
qed


theorem hold_repair_witness:
  "reconstructed_target (build_history_from_previous_decisions demo_decisions demo_current) ''AAPL''
     = Some (PFloat (Finite 1500))
   \<and> reconstructed_target (build_history_from_previous_decisions demo_decisions None) ''AAPL''
     = Some (PFloat (Finite 0))
   \<and> reconstructed_target
        (build_history_from_previous_decisions demo_decisions (Some [(''AAPL'', PDict [])])) ''AAPL''
     = Some (PFloat (Finite 0))"
proof -
  have pre: "\<forall>x \<in> set [(''MSFT'', PDict msft_decision)].
                 \<not> entry_fails cf (history_date_of demo_entries) x" for cf
    by (simp add: msft_succeeds)
  have hold: "hold_zero aapl_decision"
    by (simp add: hold_zero_def aapl_decision_def dict_get_def)
  have live: "live_position demo_current ''AAPL'' = Some (PFloat (Finite 1500))"
    by (simp add: live_position_def demo_current_def dict_get_def)
  have positive: "py_gt_zero (PFloat (Finite 1500)) = Inr True"
    by simp
  have absent: "not_in_features None ''AAPL''"
    by (simp add: not_in_features_def)
  have unvalued: "live_position (Some [(''AAPL'', PDict [])]) ''AAPL'' = Some (PFloat (Finite 0))"
    by (simp add: live_position_def dict_get_def)
  have zero: "py_gt_zero (PFloat (Finite 0)) = Inr False"
    by simp
  have recorded: "dict_get aapl_decision ''target_cash_amount'' (PFloat (Finite 0)) = PFloat (Finite 0)"
    by (simp add: aapl_decision_def dict_get_def)
  from hold_repair [OF demo_entries_split demo_entries_distinct pre, of demo_current "PFloat (Finite 1500)"]
    hold live positive
  have "reconstructed_target (build_history_from_previous_decisions demo_decisions demo_current) ''AAPL''
     = Some (PFloat (Finite 1500))"
    by (simp add: demo_decisions_def)
  moreover
  from hold_repair [OF demo_entries_split demo_entries_distinct pre, of None "PFloat (Finite 1500)"]
    absent recorded
  have "reconstructed_target (build_history_from_previous_decisions demo_decisions None) ''AAPL''
     = Some (PFloat (Finite 0))"
    by (simp add: demo_decisions_def)
  moreover
  from hold_repair [OF demo_entries_split demo_entries_distinct pre,
                    of "Some [(''AAPL'', PDict [])]" "PFloat (Finite 0)"]
    unvalued zero recorded
  have "reconstructed_target
          (build_history_from_previous_decisions demo_decisions (Some [(''AAPL'', PDict [])])) ''AAPL''
     = Some (PFloat (Finite 0))"
    by (simp add: demo_decisions_def)
  ultimately show ?thesis
    by simp
qed

section \<open>Errors during the reconstruction\<close>

text \<open>
  C4, as the claim states it, fails: the \<^verbatim>\<open>try\<close> block encloses the whole loop, so the
  exception raised for one symbol (here AAPL, whose position value is \<^verbatim>\<open>None\<close>) ends the
  loop, and the later symbol NVDA gets no record although its entry is well-formed.
\<close>

theorem isolation_counterexample:
  "build_history_from_previous_decisions demo_decisions broken_current =
     [(''MSFT'', PList [PDict [(''date'', PStr ''2024-03-15''), (''action'', PStr ''buy''),
                               (''cash_change'', PFloat (Finite 1000)), (''target_cash_amount'', PFloat (Finite 5000)),
                               (''reasons'', PList [PStr ''momentum'']),
                               (''confidence'', PFloat (Finite (4 / 5)))]])]
   \<and> history_record broken_current (PStr ''2024-03-15'') ''NVDA'' nvda_decision =
       Inr (PDict [(''date'', PStr ''2024-03-15''), (''action'', PStr ''sell''),
                   (''cash_change'', PFloat (Finite (- 700))), (''target_cash_amount'', PFloat (Finite 0)),
                   (''reasons'', PList []), (''confidence'', PFloat (Finite (1 / 2)))])"
  by (simp add: build_history_from_previous_decisions_def build_history_try_def demo_decisions_def
        demo_entries_def msft_decision_def aapl_decision_def nvda_decision_def
        broken_current_def history_date_of_def history_record_def dict_get_def repair_target_def)

text \<open>
  C4, amended. The reconstruction returns a mapping in every case. A falsy or non-dict
  \<^verbatim>\<open>previous_decisions\<close> gives the empty mapping. When no entry raises, exactly the
  symbols whose decision is a dict get a record (the other entries are skipped). When an
  entry raises, exactly the symbols with a dict decision before it get a record.
\<close>

theorem history_stops_at_first_error:
  "(\<not> truthy pd \<or> \<not> is_dict pd \<longrightarrow> build_history_from_previous_decisions pd cf = [])
   \<and> ((\<forall>x \<in> set (filter (\<lambda>(k, v). k \<noteq> ''__meta__'') entries).
           \<not> entry_fails cf (history_date_of entries) x) \<longrightarrow>
        fst ` set (build_history_from_previous_decisions (PDict entries) cf) =
          decided_symbols (filter (\<lambda>(k, v). k \<noteq> ''__meta__'') entries))
   \<and> (filter (\<lambda>(k, v). k \<noteq> ''__meta__'') entries = pre @ kv # post
        \<and> (\<forall>x \<in> set pre. \<not> entry_fails cf (history_date_of entries) x)
        \<and> entry_fails cf (history_date_of entries) kv \<longrightarrow>
        fst ` set (build_history_from_previous_decisions (PDict entries) cf) = decided_symbols pre)"
proof (intro conjI impI)
  assume "\<not> truthy pd \<or> \<not> is_dict pd"
  then show "build_history_from_previous_decisions pd cf = []"
  proof
    assume "\<not> truthy pd"
    then show ?thesis by (simp add: build_history_from_previous_decisions_def)
  next
    assume "\<not> is_dict pd"
    then show ?thesis by (rule build_history_not_dict)
  qed
next
  assume ok: "\<forall>x \<in> set (filter (\<lambda>(k, v). k \<noteq> ''__meta__'') entries).
           \<not> entry_fails cf (history_date_of entries) x"
  show "fst ` set (build_history_from_previous_decisions (PDict entries) cf) =
          decided_symbols (filter (\<lambda>(k, v). k \<noteq> ''__meta__'') entries)"
  proof (cases "entries = []")
    case True
    then show ?thesis
      by (simp add: build_history_from_previous_decisions_def decided_symbols_def)
  next
    case False
    with history_loop_keys [OF ok, of "[]"] show ?thesis
      by (simp add: build_history_dict)
  qed
next
  assume "filter (\<lambda>(k, v). k \<noteq> ''__meta__'') entries = pre @ kv # post
        \<and> (\<forall>x \<in> set pre. \<not> entry_fails cf (history_date_of entries) x)
        \<and> entry_fails cf (history_date_of entries) kv"
  then have split: "filter (\<lambda>(k, v). k \<noteq> ''__meta__'') entries = pre @ kv # post"
    and ok: "\<forall>x \<in> set pre. \<not> entry_fails cf (history_date_of entries) x"
    and bad: "entry_fails cf (history_date_of entries) kv"
    by auto
  from split have nonempty: "entries \<noteq> []" by auto
  from history_loop_fails [OF bad]
  have "fst (history_loop cf (history_date_of entries) (kv # post) h) = h" for h
    by (metis fst_conv)
  then have "build_history_from_previous_decisions (PDict entries) cf =
               fst (history_loop cf (history_date_of entries) pre [])"
    by (simp add: build_history_dict [OF nonempty] split history_loop_append [OF ok])
  with history_loop_keys [OF ok, of "[]"]
  show "fst ` set (build_history_from_previous_decisions (PDict entries) cf) = decided_symbols pre"
    by simp
qed

theorem history_stops_at_first_error_witness:
  "build_history_from_previous_decisions (PList [PStr ''AAPL'']) demo_current = []
   \<and> fst ` set (build_history_from_previous_decisions demo_decisions demo_current)
       = {''MSFT'', ''AAPL'', ''NVDA''}
   \<and> fst ` set (build_history_from_previous_decisions demo_decisions broken_current) = {''MSFT''}"
proof -
  let ?rest = "filter (\<lambda>(k, v). k \<noteq> ''__meta__'') demo_entries"
  have all_ok: "\<forall>x \<in> set ?rest. \<not> entry_fails demo_current (history_date_of demo_entries) x"
    by (simp add: demo_entries_split msft_succeeds aapl_succeeds nvda_succeeds)
  have pre_ok: "\<forall>x \<in> set [(''MSFT'', PDict msft_decision)].
                  \<not> entry_fails broken_current (history_date_of demo_entries) x"
    by (simp add: msft_succeeds)
  have malformed: "truthy (PList [PStr ''AAPL'']) \<and> \<not> is_dict (PList [PStr ''AAPL''])"
    by simp
  from history_stops_at_first_error [of "PList [PStr ''AAPL'']" demo_current demo_entries]
    malformed
  have "build_history_from_previous_decisions (PList [PStr ''AAPL'']) demo_current = []"
    by blast
  moreover
  from history_stops_at_first_error [of PNone demo_current demo_entries] all_ok
  have "fst ` set (build_history_from_previous_decisions demo_decisions demo_current)
          = {''MSFT'', ''AAPL'', ''NVDA''}"
    by (simp add: demo_decisions_def demo_entries_split decided_symbols_Cons decided_symbols_Nil)
  moreover
  from history_stops_at_first_error
         [of PNone broken_current demo_entries "[(''MSFT'', PDict msft_decision)]"
             "(''AAPL'', PDict aapl_decision)" "[(''NVDA'', PDict nvda_decision)]"]
    demo_entries_split pre_ok aapl_fails
  have "fst ` set (build_history_from_previous_decisions demo_decisions broken_current) = {''MSFT''}"
    by (simp add: demo_decisions_def decided_symbols_Cons decided_symbols_Nil)
  ultimately show ?thesis
    by simp
qed

section \<open>The call that is made\<close>

lemma filter_enabled_call:
  assumes "filter_stocks_needing_fundamental env features_list cfg True rid ctx pd dh = Inr (r, [c])"
  shows "trade_date c = resolve_trade_date (today env) features_list ctx"
  using assms
  by (auto simp: filter_stocks_needing_fundamental_def Let_def bind_err_eq_Inr
           split: if_splits option.splits)

lemma filter_enabled_request:
  assumes "filter_stocks_needing_fundamental env features_list cfg True rid ctx pd dh = Inr (r, [c])"
  shows "\<exists>filter_input. build_filter_input env features_list cfg ctx pd dh = Inr filter_input
           \<and> serialize env filter_input = Inr (user_prompt c)"
  using assms
  by (auto simp: filter_stocks_needing_fundamental_def Let_def bind_err_eq_Inr
           split: if_splits option.splits)

lemma demo_env_run:
  assumes "build_filter_input demo_env features_list demo_cfg ctx pd dh = Inr filter_input"
  shows "filter_stocks_needing_fundamental demo_env features_list demo_cfg True rid ctx pd dh =
           Inr (validate_response (symbols_list features_list) (Raises (OtherError ''connection refused'')),
                [\<lparr>gateway = demo_gateway, user_prompt = ''{}'',
                  trade_date = resolve_trade_date ''2024-03-18'' features_list ctx, run_id = rid\<rparr>])"
proof -
  have "filter_stocks_needing_fundamental demo_env features_list demo_cfg True rid ctx pd dh =
           Inr (validate_response (symbols_list features_list)
                  (generate_json demo_env
                     \<lparr>gateway = demo_gateway, user_prompt = ''{}'',
                      trade_date = resolve_trade_date (today demo_env) features_list ctx, run_id = rid\<rparr>),
                [\<lparr>gateway = demo_gateway, user_prompt = ''{}'',
                  trade_date = resolve_trade_date (today demo_env) features_list ctx, run_id = rid\<rparr>])"
    by (rule filter_enabled_run [OF demo_llm demo_gateway_setup assms])
       (simp_all add: demo_env_def)
  then show ?thesis
    by (simp add: demo_env_def)
qed

section \<open>Resolution of the trade date\<close>

lemma scan_skips:
  "\<forall>x \<in> set pre. no_date_fields x \<Longrightarrow> scan_market_dates (pre @ rest) = scan_market_dates rest"
proof (induction pre)
  case Nil
  then show ?case by simp
next
  case (Cons it pre)
  then have "no_date_fields it" by simp
  then obtain feats market_data where
    "features_of it = PDict feats" "dict_get feats ''market_data'' (PDict []) = PDict market_data"
    "''date'' \<notin> fst ` set market_data" "''timestamp'' \<notin> fst ` set market_data"
    by (auto simp: no_date_fields_def split: pyval.splits)
  with Cons show ?case by simp
qed

lemma scan_finds:
  assumes "market_date it = Some d"
  shows "scan_market_dates (it # rest) = Inr d"
proof -
  from assms obtain feats market_data where
    feats: "features_of it = PDict feats"
    and md: "dict_get feats ''market_data'' (PDict []) = PDict market_data"
    and d: "map_of market_data ''date'' = Some d"
    by (auto simp: market_date_def split: pyval.splits)
  from d have "''date'' \<in> fst ` set market_data"
    by (metis map_of_eq_None_iff option.distinct(1))
  with feats md d show ?thesis by simp
qed

lemma after_scan:
  "features_list \<noteq> [] \<Longrightarrow> scan_market_dates features_list = Inr d \<Longrightarrow>
   resolve_trade_date now features_list ctx = (if truthy d then d else ctx_or_now now ctx)"
  by (auto simp: resolve_trade_date_def extract_trade_date_def ctx_or_now_def ctx_trade_date_def Let_def
           split: option.splits ctx_date.splits)

lemma build_dated:
  "\<exists>filter_input. build_filter_input demo_env dated_features demo_cfg (Some dated_ctx) PNone None = Inr filter_input"
  by (simp add: build_filter_input_def dated_features_def plain_item_def dated_item_def demo_cfg_def
      symbols_step_def features_of_def
      symbol_of_def dict_get_def float_iadd_def portfolio_info_def sub_float_def dated_ctx_def
      fsub_def float_of_int_def demo_nearest)

lemma build_demo_dated:
  "\<exists>filter_input. build_filter_input demo_env demo_features demo_cfg (Some dated_ctx) PNone None = Inr filter_input"
  by (simp add: build_filter_input_def demo_features_def demo_cfg_def symbols_step_def features_of_def
      symbol_of_def dict_get_def float_iadd_def portfolio_info_def sub_float_def dated_ctx_def
      fsub_def float_of_int_def demo_nearest)

lemma build_broken:
  "\<exists>filter_input. build_filter_input demo_env broken_features demo_cfg (Some dated_ctx) PNone None = Inr filter_input"
  by (simp add: build_filter_input_def broken_features_def demo_cfg_def symbols_step_def features_of_def
      symbol_of_def dict_get_def float_iadd_def portfolio_info_def sub_float_def dated_ctx_def
      fsub_def float_of_int_def demo_nearest)

lemma build_empty:
  "\<exists>filter_input. build_filter_input demo_env [] demo_cfg (Some dated_ctx) PNone None = Inr filter_input"
  by (simp add: build_filter_input_def demo_cfg_def dict_get_def portfolio_info_def sub_float_def dated_ctx_def
      fsub_def float_of_int_def demo_nearest)

text \<open>
  C7, as the claim states it, fails: the whole resolution sits under the test of line 256,
  so for an empty \<^verbatim>\<open>features_list\<close> the date passed to the call is \<^verbatim>\<open>None\<close>, neither the
  date of the context nor the current date.
\<close>

theorem empty_features_counterexample:
  "filter_stocks_needing_fundamental demo_env [] demo_cfg True PNone (Some dated_ctx) PNone None =
     Inr (\<lparr>stocks_need_fundamental = [], reasoning = []\<rparr>,
          [\<lparr>gateway = demo_gateway, user_prompt = ''{}'', trade_date = PNone, run_id = PNone\<rparr>])
   \<and> date dated_ctx = Some (DateText ''2024-03-15'')
   \<and> today demo_env = ''2024-03-18''"
proof -
  from build_empty obtain filter_input where
    "build_filter_input demo_env [] demo_cfg (Some dated_ctx) PNone None = Inr filter_input" ..
  from demo_env_run [OF this] show ?thesis
    by (simp add: resolve_trade_date_def extract_trade_date_def symbols_list_def validate_response_def
          parse_response_def fallback_all_def dict_comprehension_def dated_ctx_def demo_env_def)
qed

text \<open>
  A timestamp is never converted: the call of line 272 raises for every timestamp (see
  \<open>datetime_fromisoformat\<close>), the bare \<^verbatim>\<open>except\<close> swallows the exception, and the date
  falls through to the context or the current date.
\<close>

lemma timestamp_is_never_parsed:
  "resolve_trade_date ''2024-03-18'' stamped_features None = PStr ''2024-03-18''"
  by (simp add: resolve_trade_date_def extract_trade_date_def stamped_features_def features_of_def
        dict_get_def datetime_fromisoformat_def)

text \<open>
  C7, amended. The date passed to the call is \<^verbatim>\<open>None\<close> for an empty \<^verbatim>\<open>features_list\<close>.
  For a non-empty one: when the candidates before the first one with a date field have
  market data without date and timestamp fields, that date field is taken if it is truthy;
  when it is not, or when no candidate has a date or timestamp field, the date of the
  context is taken (a date-like object formatted, a string as it is) if it is non-empty,
  else the current date; and an exception raised by the scan gives the current date.
\<close>

theorem trade_date_resolution:
  assumes "filter_stocks_needing_fundamental env features_list cfg True rid ctx pd dh = Inr (r, [c])"
  shows "(features_list = [] \<longrightarrow> trade_date c = PNone)
   \<and> (features_list = pre @ it # post \<and> (\<forall>x \<in> set pre. no_date_fields x) \<and> market_date it = Some d
        \<longrightarrow> trade_date c = (if truthy d then d else ctx_or_now (today env) ctx))
   \<and> (features_list \<noteq> [] \<and> (\<forall>x \<in> set features_list. no_date_fields x)
        \<longrightarrow> trade_date c = ctx_or_now (today env) ctx)
   \<and> (features_list \<noteq> [] \<and> scan_market_dates features_list = Inl e
        \<longrightarrow> trade_date c = PStr (today env))"
  unfolding filter_enabled_call [OF assms]
proof (intro conjI impI)
  let ?now = "today env"
  show "features_list = [] \<Longrightarrow> resolve_trade_date ?now features_list ctx = PNone"
    by (simp add: resolve_trade_date_def extract_trade_date_def)
next
  let ?now = "today env"
  assume a: "features_list = pre @ it # post \<and> (\<forall>x \<in> set pre. no_date_fields x) \<and> market_date it = Some d"
  then have "scan_market_dates features_list = scan_market_dates (it # post)"
    using scan_skips [of pre "it # post"] by blast
  with a have "scan_market_dates features_list = Inr d"
    using scan_finds [of it d post] by simp
  moreover from a have "features_list \<noteq> []" by auto
  ultimately show "resolve_trade_date ?now features_list ctx = (if truthy d then d else ctx_or_now ?now ctx)"
    by (rule after_scan [rotated])
next
  let ?now = "today env"
  assume a: "features_list \<noteq> [] \<and> (\<forall>x \<in> set features_list. no_date_fields x)"
  then have "scan_market_dates (features_list @ []) = scan_market_dates []"
    by (intro scan_skips) simp
  then have "scan_market_dates features_list = Inr PNone" by simp
  with a show "resolve_trade_date ?now features_list ctx = ctx_or_now ?now ctx"
    by (simp add: after_scan)
next
  let ?now = "today env"
  assume "features_list \<noteq> [] \<and> scan_market_dates features_list = Inl e"
  then show "resolve_trade_date ?now features_list ctx = PStr ?now"
    by (simp add: resolve_trade_date_def extract_trade_date_def)
qed

theorem trade_date_resolution_witness:
  "resolve_trade_date (today demo_env) dated_features (Some dated_ctx) = PStr ''2024-03-14''
   \<and> resolve_trade_date (today demo_env) demo_features (Some dated_ctx) = PStr ''2024-03-15''
   \<and> resolve_trade_date (today demo_env) demo_features None = PStr ''2024-03-18''
   \<and> resolve_trade_date (today demo_env) broken_features (Some dated_ctx) = PStr ''2024-03-18''
   \<and> resolve_trade_date (today demo_env) [] (Some dated_ctx) = PNone"
proof -
  have now: "today demo_env = ''2024-03-18''"
    by (simp add: demo_env_def)
  have plain: "\<forall>x \<in> set demo_features. no_date_fields x"
    by (simp add: demo_features_def no_date_fields_def features_of_def dict_get_def)
  have first: "dated_features = [plain_item] @ dated_item # []
      \<and> (\<forall>x \<in> set [plain_item]. no_date_fields x)
      \<and> market_date dated_item = Some (PStr ''2024-03-14'')"
    by (simp add: dated_features_def plain_item_def dated_item_def no_date_fields_def market_date_def
          features_of_def dict_get_def)
  have raises: "broken_features \<noteq> [] \<and> scan_market_dates broken_features =
       Inl (TypeError (''argument of type '' @ quoted ''NoneType'' @ '' is not iterable''))"
    by (simp add: broken_features_def features_of_def dict_get_def)
  have ctx: "ctx_or_now ''2024-03-18'' (Some dated_ctx) = PStr ''2024-03-15''"
    by (simp add: ctx_or_now_def dated_ctx_def)
  have none: "ctx_or_now ''2024-03-18'' None = PStr ''2024-03-18''"
    by (simp add: ctx_or_now_def)
  from build_dated obtain fi1 where
    "build_filter_input demo_env dated_features demo_cfg (Some dated_ctx) PNone None = Inr fi1" ..
  from trade_date_resolution [OF demo_env_run [OF this], where pre = "[plain_item]" and it = dated_item
         and post = "[]" and d = "PStr ''2024-03-14''"] first
  have 1: "resolve_trade_date ''2024-03-18'' dated_features (Some dated_ctx) = PStr ''2024-03-14''"
    by simp
  from build_demo_dated obtain fi2 where
    "build_filter_input demo_env demo_features demo_cfg (Some dated_ctx) PNone None = Inr fi2" ..
  from trade_date_resolution [OF demo_env_run [OF this]] plain ctx
  have 2: "resolve_trade_date ''2024-03-18'' demo_features (Some dated_ctx) = PStr ''2024-03-15''"
    by (simp add: now demo_features_def)
  from trade_date_resolution [OF demo_env_run [OF demo_input]] plain none
  have 3: "resolve_trade_date ''2024-03-18'' demo_features None = PStr ''2024-03-18''"
    by (simp add: now demo_features_def)
  from build_broken obtain fi4 where
    "build_filter_input demo_env broken_features demo_cfg (Some dated_ctx) PNone None = Inr fi4" ..
  from trade_date_resolution [OF demo_env_run [OF this], where e =
       "TypeError (''argument of type '' @ quoted ''NoneType'' @ '' is not iterable'')"] raises
  have 4: "resolve_trade_date ''2024-03-18'' broken_features (Some dated_ctx) = PStr ''2024-03-18''"
    by (simp add: now)
  from build_empty obtain fi5 where
    "build_filter_input demo_env [] demo_cfg (Some dated_ctx) PNone None = Inr fi5" ..
  from trade_date_resolution [OF demo_env_run [OF this]]
  have 5: "resolve_trade_date ''2024-03-18'' [] (Some dated_ctx) = PNone"
    by simp
  from 1 2 3 4 5 show ?thesis
    by (simp add: now)
qed

section \<open>The request\<close>

lemma map_of_without_fundamentals:
  "map_of (without_fundamentals sections) k =
     (if k = ''fundamental_data'' then None else map_of sections k)"
  by (induction sections) (auto simp: without_fundamentals_def)

lemma symbols_step_Inr:
  assumes "symbols_step env it (symbols, acc) = Inr (symbols', acc')"
  shows "\<exists>feats. features_of it = PDict feats
           \<and> symbols' = AList.update (symbol_of it) (PDict [(''features'', PDict (without_fundamentals feats))]) symbols
           \<and> acc' = fadd env acc (candidate_position_value env it)"
proof -
  from assms obtain feats where feats: "features_of it = PDict feats"
    by (cases "features_of it") (auto simp: symbols_step_def)
  have ps: "dict_get (without_fundamentals feats) ''position_state'' (PDict []) =
              dict_get feats ''position_state'' (PDict [])"
    by (simp add: dict_get_def map_of_without_fundamentals)
  from assms feats ps obtain position_state f where
    state: "dict_get feats ''position_state'' (PDict []) = PDict position_state"
    and val: "as_float env (dict_get position_state ''current_position_value'' (PFloat (Finite 0)))
                = Some (Inr f)"
    and acc': "acc' = fadd env acc f"
    and symbols': "symbols' = AList.update (symbol_of it)
                     (PDict [(''features'', PDict (without_fundamentals feats))]) symbols"
    by (cases "dict_get feats ''position_state'' (PDict [])")
       (auto simp: symbols_step_def without_fundamentals_def [symmetric] Let_def bind_err_eq_Inr
          float_iadd_def split: option.splits sum.splits)
  from feats state val have "candidate_position_value env it = f"
    by (simp add: candidate_position_value_def)
  with feats acc' symbols' show ?thesis by simp
qed

lemma symbols_loop_total:
  "fold_err (symbols_step env) features_list (symbols, acc) = Inr (symbols', acc') \<Longrightarrow>
   acc' = foldl (fadd env) acc (map (candidate_position_value env) features_list)"
proof (induction features_list arbitrary: symbols acc)
  case Nil
  then show ?case by simp
next
  case (Cons it rest)
  then obtain s1 a1 where step: "symbols_step env it (symbols, acc) = Inr (s1, a1)"
    and rest: "fold_err (symbols_step env) rest (s1, a1) = Inr (symbols', acc')"
    by (auto split: sum.splits)
  from symbols_step_Inr [OF step] have "a1 = fadd env acc (candidate_position_value env it)" by blast
  with Cons.IH [OF rest] show ?case
    by simp
qed

lemma symbols_loop_keys:
  "fold_err (symbols_step env) features_list (symbols, acc) = Inr (symbols', acc') \<Longrightarrow>
   fst ` set symbols' = fst ` set symbols \<union> set (symbols_list features_list)"
proof (induction features_list arbitrary: symbols acc)
  case Nil
  then show ?case by (simp add: symbols_list_def)
next
  case (Cons it rest)
  then obtain s1 a1 where step: "symbols_step env it (symbols, acc) = Inr (s1, a1)"
    and rest: "fold_err (symbols_step env) rest (s1, a1) = Inr (symbols', acc')"
    by (auto split: sum.splits)
  from symbols_step_Inr [OF step] obtain feats where
    "s1 = AList.update (symbol_of it) (PDict [(''features'', PDict (without_fundamentals feats))]) symbols"
    by blast
  then have "fst ` set s1 = insert (symbol_of it) (fst ` set symbols)"
    by (simp add: dom_update)
  with Cons.IH [OF rest] show ?case
    by (auto simp: symbols_list_def)
qed

lemma symbols_loop_entry:
  "fold_err (symbols_step env) features_list (symbols, acc) = Inr (symbols', acc') \<Longrightarrow>
   (case last_candidate features_list s of
      None \<Rightarrow> map_of symbols' s = map_of symbols s
    | Some it \<Rightarrow>
        (\<exists>feats. features_of it = PDict feats
           \<and> map_of symbols' s = Some (PDict [(''features'', PDict (without_fundamentals feats))])))"
proof (induction features_list arbitrary: symbols acc)
  case Nil
  then show ?case by simp
next
  case (Cons it rest)
  then obtain s1 a1 where step: "symbols_step env it (symbols, acc) = Inr (s1, a1)"
    and rest: "fold_err (symbols_step env) rest (s1, a1) = Inr (symbols', acc')"
    by (auto split: sum.splits)
  from symbols_step_Inr [OF step] obtain feats where feats: "features_of it = PDict feats"
    and s1: "s1 = AList.update (symbol_of it) (PDict [(''features'', PDict (without_fundamentals feats))]) symbols"
    by blast
  from Cons.IH [OF rest, of] feats s1 show ?case
    by (auto simp: update_conv' split: option.splits)
qed

lemma build_filter_input_Inr:
  assumes "build_filter_input env features_list cfg ctx pd dh = Inr filter_input"
  shows "\<exists>symbols info.
           fold_err (symbols_step env) features_list ([], Finite 0) =
             Inr (symbols, aggregate_position_value env features_list)
           \<and> portfolio_info env cfg ctx (aggregate_position_value env features_list) = Inr info
           \<and> filter_input = PDict [(''portfolio_info'', info), (''symbols'', PDict symbols),
                (''history'', PDict (select_history features_list pd dh))]"
proof -
  from assms obtain st info where st: "fold_err (symbols_step env) features_list ([], Finite 0) = Inr st"
    and info: "portfolio_info env cfg ctx (snd st) = Inr info"
    and fi: "filter_input = PDict [(''portfolio_info'', info), (''symbols'', PDict (fst st)),
                (''history'', PDict (select_history features_list pd dh))]"
    by (auto simp: build_filter_input_def bind_err_eq_Inr)
  from st symbols_loop_total [of env features_list "[]" "Finite 0" "fst st" "snd st"]
  have "snd st = aggregate_position_value env features_list"
    by (simp add: aggregate_position_value_def)
  with st info fi show ?thesis
    by (cases st) auto
qed

lemma portfolio_info_live:
  assumes "ctx_cash ctx = Some cash" and "portfolio_info env cfg ctx t = Inr info"
  shows "\<exists>live. py_float env cash = Inr live
           \<and> info = PDict [(''total_assets'', PFloat (fadd env live t)),
                           (''available_cash'', PFloat live),
                           (''position_value'', PFloat t)]"
proof -
  from assms(1) have "(case ctx of None \<Rightarrow> None | Some c \<Rightarrow> portfolio c) = Some cash"
    by (simp add: ctx_cash_def)
  with assms(2) have "bind_err (py_float env cash) (\<lambda>current_cash.
               Inr (PDict [(''total_assets'', PFloat (fadd env current_cash t)),
                           (''available_cash'', PFloat current_cash),
                           (''position_value'', PFloat t)])) = Inr info"
    by (simp add: portfolio_info_def Let_def)
  then show ?thesis
    by (auto simp: bind_err_eq_Inr)
qed

lemma portfolio_info_static:
  assumes "ctx_cash ctx = None" "portfolio_info env cfg ctx t = Inr info"
  shows "\<exists>total. as_float env (configured_total_cash cfg) = Some (Inr total)
           \<and> info = PDict [(''total_assets'', configured_total_cash cfg),
                           (''available_cash'', PFloat (fsub env total t)),
                           (''position_value'', PFloat t)]"
proof -
  let ?pc = "case cfg of None \<Rightarrow> PDict []
             | Some c \<Rightarrow> if c = [] then PDict [] else dict_get c ''portfolio'' (PDict [])"
  from assms(1) have "(case ctx of None \<Rightarrow> None | Some c \<Rightarrow> portfolio c) = None"
    by (simp add: ctx_cash_def)
  with assms(2) have run: "bind_err (py_get ?pc ''total_cash'' (PInt 100000)) (\<lambda>total_assets.
             bind_err (sub_float env total_assets t) (\<lambda>available_cash.
               Inr (PDict [(''total_assets'', total_assets),
                           (''available_cash'', PFloat available_cash),
                           (''position_value'', PFloat t)]))) = Inr info"
    by (simp add: portfolio_info_def Let_def)
  then obtain pcd where pcd: "?pc = PDict pcd"
    by (cases ?pc) (auto simp: bind_err_eq_Inr)
  then have total: "configured_total_cash cfg = dict_get pcd ''total_cash'' (PInt 100000)"
    by (auto simp: configured_total_cash_def dict_get_def split: option.splits if_splits pyval.splits)
  from run pcd total show ?thesis
    by (auto simp: bind_err_eq_Inr sub_float_def split: option.splits sum.splits)
qed

lemma build_live:
  "\<exists>filter_input. build_filter_input demo_env demo_features demo_cfg (Some live_ctx) PNone None = Inr filter_input"
  by (simp add: build_filter_input_def demo_features_def demo_cfg_def symbols_step_def features_of_def
      symbol_of_def dict_get_def float_iadd_def portfolio_info_def live_ctx_def py_float_def)

lemma demo_aggregate: "aggregate_position_value demo_env demo_features = Finite 20000"
  by (simp add: aggregate_position_value_def candidate_position_value_def demo_features_def
        features_of_def dict_get_def demo_nearest)

lemma last_candidate_member:
  "s \<in> set (symbols_list features_list) \<Longrightarrow> \<exists>it. last_candidate features_list s = Some it"
  by (induction features_list) (auto simp: symbols_list_def split: option.splits)

lemma without_fundamentals_keys: "''fundamental_data'' \<notin> fst ` set (without_fundamentals sections)"
  by (auto simp: without_fundamentals_def)

text \<open>
  C8. In the request that is serialized for the call, \<^verbatim>\<open>position_value\<close> is the float sum
  of the candidates' current position values (0.0 for a candidate without one), added in
  list order from 0.0. With a portfolio in the context, \<^verbatim>\<open>total_assets\<close> is the float sum
  of the live cash, \<^verbatim>\<open>float(cash)\<close>, and that aggregate, and \<^verbatim>\<open>available_cash\<close> is the
  live cash; without one, \<^verbatim>\<open>total_assets\<close> is the configured total cash (100000 by
  default) and \<^verbatim>\<open>available_cash\<close> is the float difference of that total and the
  aggregate. Every sum and difference is rounded as the machine rounds it.
\<close>

theorem portfolio_snapshot:
  assumes "filter_stocks_needing_fundamental env features_list cfg True rid ctx pd dh = Inr (r, [c])"
  shows "\<exists>filter_input.
           build_filter_input env features_list cfg ctx pd dh = Inr filter_input
           \<and> serialize env filter_input = Inr (user_prompt c)
           \<and> snapshot filter_input ''position_value'' =
               Some (PFloat (aggregate_position_value env features_list))
           \<and> (\<forall>cash. ctx_cash ctx = Some cash \<longrightarrow>
                 (\<exists>live. py_float env cash = Inr live
                    \<and> snapshot filter_input ''total_assets'' =
                        Some (PFloat (fadd env live (aggregate_position_value env features_list)))
                    \<and> snapshot filter_input ''available_cash'' = Some (PFloat live)))
           \<and> (ctx_cash ctx = None \<longrightarrow>
                 snapshot filter_input ''total_assets'' = Some (configured_total_cash cfg)
                 \<and> (\<exists>total. as_float env (configured_total_cash cfg) = Some (Inr total)
                       \<and> snapshot filter_input ''available_cash'' =
                           Some (PFloat (fsub env total (aggregate_position_value env features_list)))))"
proof -
  let ?agg = "aggregate_position_value env features_list"
  from filter_enabled_request [OF assms] obtain filter_input where
    built: "build_filter_input env features_list cfg ctx pd dh = Inr filter_input"
    and sent: "serialize env filter_input = Inr (user_prompt c)"
    by blast
  from build_filter_input_Inr [OF built] obtain symbols info where
    info: "portfolio_info env cfg ctx ?agg = Inr info"
    and fi: "filter_input = PDict [(''portfolio_info'', info), (''symbols'', PDict symbols),
                (''history'', PDict (select_history features_list pd dh))]"
    by blast
  have snap: "snapshot filter_input k = (case info of PDict i \<Rightarrow> map_of i k | v \<Rightarrow> None)" for k
    by (simp add: fi snapshot_def)
  have live: "\<exists>live. py_float env cash = Inr live
                \<and> snapshot filter_input ''total_assets'' = Some (PFloat (fadd env live ?agg))
                \<and> snapshot filter_input ''available_cash'' = Some (PFloat live)
                \<and> snapshot filter_input ''position_value'' = Some (PFloat ?agg)"
    if "ctx_cash ctx = Some cash" for cash
  proof -
    from portfolio_info_live [OF that info] obtain live where
      cash: "py_float env cash = Inr live"
      and "info = PDict [(''total_assets'', PFloat (fadd env live ?agg)),
                         (''available_cash'', PFloat live),
                         (''position_value'', PFloat ?agg)]"
      by blast
    then have "snapshot filter_input ''total_assets'' = Some (PFloat (fadd env live ?agg))"
      and "snapshot filter_input ''available_cash'' = Some (PFloat live)"
      and "snapshot filter_input ''position_value'' = Some (PFloat ?agg)"
      by (simp_all add: snap)
    with cash show ?thesis by blast
  qed
  have static: "snapshot filter_input ''total_assets'' = Some (configured_total_cash cfg)
                 \<and> (\<exists>total. as_float env (configured_total_cash cfg) = Some (Inr total)
                       \<and> snapshot filter_input ''available_cash'' = Some (PFloat (fsub env total ?agg)))
                 \<and> snapshot filter_input ''position_value'' = Some (PFloat ?agg)"
    if "ctx_cash ctx = None"
  proof -
    from portfolio_info_static [OF that info] obtain total where
      total: "as_float env (configured_total_cash cfg) = Some (Inr total)"
      and "info = PDict [(''total_assets'', configured_total_cash cfg),
                           (''available_cash'', PFloat (fsub env total ?agg)),
                           (''position_value'', PFloat ?agg)]"
      by blast
    then have "snapshot filter_input ''total_assets'' = Some (configured_total_cash cfg)"
      and "snapshot filter_input ''available_cash'' = Some (PFloat (fsub env total ?agg))"
      and "snapshot filter_input ''position_value'' = Some (PFloat ?agg)"
      by (simp_all add: snap)
    with total show ?thesis by blast
  qed
  have position: "snapshot filter_input ''position_value'' = Some (PFloat ?agg)"
  proof (cases "ctx_cash ctx")
    case None
    then show ?thesis by (rule static [THEN conjunct2, THEN conjunct2])
  next
    case (Some cash)
    from live [OF this] show ?thesis by blast
  qed
  show ?thesis
  proof (intro exI [of _ filter_input] conjI allI impI)
    show "build_filter_input env features_list cfg ctx pd dh = Inr filter_input" by (rule built)
    show "serialize env filter_input = Inr (user_prompt c)" by (rule sent)
    show "snapshot filter_input ''position_value'' = Some (PFloat ?agg)" by (rule position)
    show "\<exists>live. py_float env cash = Inr live
            \<and> snapshot filter_input ''total_assets'' = Some (PFloat (fadd env live ?agg))
            \<and> snapshot filter_input ''available_cash'' = Some (PFloat live)"
      if "ctx_cash ctx = Some cash" for cash
      using live [OF that] by blast
    show "snapshot filter_input ''total_assets'' = Some (configured_total_cash cfg)"
      if "ctx_cash ctx = None"
      using static [OF that] by (rule conjunct1)
    show "\<exists>total. as_float env (configured_total_cash cfg) = Some (Inr total)
                       \<and> snapshot filter_input ''available_cash'' = Some (PFloat (fsub env total ?agg))"
      if "ctx_cash ctx = None"
      using static [OF that] by simp
  qed
qed

theorem portfolio_snapshot_witness:
  "\<exists>filter_input.
      build_filter_input demo_env demo_features demo_cfg (Some live_ctx) PNone None = Inr filter_input
      \<and> snapshot filter_input ''total_assets'' = Some (PFloat (Finite 70000))
      \<and> snapshot filter_input ''available_cash'' = Some (PFloat (Finite 50000))
      \<and> snapshot filter_input ''position_value'' = Some (PFloat (Finite 20000))"
proof -
  from build_live obtain fi0 where
    "build_filter_input demo_env demo_features demo_cfg (Some live_ctx) PNone None = Inr fi0" ..
  from portfolio_snapshot [OF demo_env_run [OF this]] obtain filter_input where
    built: "build_filter_input demo_env demo_features demo_cfg (Some live_ctx) PNone None = Inr filter_input"
    and position: "snapshot filter_input ''position_value'' =
                     Some (PFloat (aggregate_position_value demo_env demo_features))"
    and live: "\<forall>cash. ctx_cash (Some live_ctx) = Some cash \<longrightarrow>
                 (\<exists>live. py_float demo_env cash = Inr live
                    \<and> snapshot filter_input ''total_assets'' =
                        Some (PFloat (fadd demo_env live (aggregate_position_value demo_env demo_features)))
                    \<and> snapshot filter_input ''available_cash'' = Some (PFloat live))"
    by blast
  have "ctx_cash (Some live_ctx) = Some (PFloat (Finite 50000))"
    by (simp add: ctx_cash_def live_ctx_def)
  with live obtain cash where cash: "py_float demo_env (PFloat (Finite 50000)) = Inr cash"
    and total: "snapshot filter_input ''total_assets'' =
                   Some (PFloat (fadd demo_env cash (aggregate_position_value demo_env demo_features)))"
    and available: "snapshot filter_input ''available_cash'' = Some (PFloat cash)"
    by blast
  from cash have "cash = Finite 50000"
    by (simp add: py_float_def)
  with total available built position show ?thesis
    by (intro exI [of _ filter_input]) (simp add: demo_aggregate demo_nearest)
qed

text \<open>
  C9, as the claim states it, fails: the request is keyed by symbol, so of two candidates
  with the same symbol (here both without one, hence \<^verbatim>\<open>UNKNOWN\<close>) only the later one is in
  the request; the features under the first candidate's symbol are not its own.
\<close>

theorem duplicate_symbol_counterexample:
  "build_filter_input demo_env unnamed_pair demo_cfg None PNone None =
     Inr (PDict
       [(''portfolio_info'', PDict [(''total_assets'', PInt 100000),
                                    (''available_cash'', PFloat (Finite 100000)),
                                    (''position_value'', PFloat (Finite 0))]),
        (''symbols'', PDict
           [(''UNKNOWN'', PDict [(''features'', PDict [(''market_data'', PDict [(''close'', PInt 410)])])])]),
        (''history'', PDict [])])
   \<and> symbol_of first_unnamed = ''UNKNOWN''
   \<and> features_of first_unnamed = PDict [(''market_data'', PDict [(''close'', PFloat (Finite 189))])]"
  by (simp add: build_filter_input_def unnamed_pair_def first_unnamed_def second_unnamed_def
      demo_cfg_def symbols_step_def features_of_def symbol_of_def dict_get_def float_iadd_def
      portfolio_info_def sub_float_def select_history_def build_history_from_previous_decisions_def
      fsub_def float_of_int_def demo_nearest)

text \<open>
  C9, amended. The request has exactly the input symbols as keys. Under each symbol it
  holds the feature snapshot of the last candidate with that symbol, without the
  \<^verbatim>\<open>fundamental_data\<close> section and with every other section unchanged; no entry of the
  request has a \<^verbatim>\<open>fundamental_data\<close> section.
\<close>

theorem request_features:
  assumes "filter_stocks_needing_fundamental env features_list cfg True rid ctx pd dh = Inr (r, [c])"
  shows "\<exists>filter_input.
           build_filter_input env features_list cfg ctx pd dh = Inr filter_input
           \<and> serialize env filter_input = Inr (user_prompt c)
           \<and> fst ` set (request_symbols filter_input) = set (symbols_list features_list)
           \<and> (\<forall>s it. last_candidate features_list s = Some it \<longrightarrow>
                 (\<exists>feats. features_of it = PDict feats
                    \<and> map_of (request_symbols filter_input) s =
                        Some (PDict [(''features'', PDict (without_fundamentals feats))])
                    \<and> (\<forall>k. map_of (without_fundamentals feats) k =
                              (if k = ''fundamental_data'' then None else map_of feats k))))
           \<and> (\<forall>s v. map_of (request_symbols filter_input) s = Some v \<longrightarrow>
                 (\<exists>feats. v = PDict [(''features'', PDict feats)]
                    \<and> ''fundamental_data'' \<notin> fst ` set feats))"
proof -
  from filter_enabled_request [OF assms] obtain filter_input where
    built: "build_filter_input env features_list cfg ctx pd dh = Inr filter_input"
    and sent: "serialize env filter_input = Inr (user_prompt c)"
    by blast
  from build_filter_input_Inr [OF built] obtain symbols info where
    loop: "fold_err (symbols_step env) features_list ([], Finite 0) =
             Inr (symbols, aggregate_position_value env features_list)"
    and fi: "filter_input = PDict [(''portfolio_info'', info), (''symbols'', PDict symbols),
                (''history'', PDict (select_history features_list pd dh))]"
    by blast
  have req: "request_symbols filter_input = symbols"
    by (simp add: fi request_symbols_def)
  have keys: "fst ` set symbols = set (symbols_list features_list)"
    using symbols_loop_keys [OF loop] by simp
  have entry: "\<exists>feats. features_of it = PDict feats
                    \<and> map_of symbols s = Some (PDict [(''features'', PDict (without_fundamentals feats))])"
    if "last_candidate features_list s = Some it" for s it
    using symbols_loop_entry [OF loop, of s] that by simp
  have clean: "\<exists>feats. v = PDict [(''features'', PDict feats)] \<and> ''fundamental_data'' \<notin> fst ` set feats"
    if "map_of symbols s = Some v" for s v
  proof -
    from that have "s \<in> fst ` set symbols"
      by (metis map_of_eq_None_iff option.distinct(1))
    with keys obtain it where "last_candidate features_list s = Some it"
      using last_candidate_member by blast
    from entry [OF this] that obtain feats where
      "v = PDict [(''features'', PDict (without_fundamentals feats))]"
      by auto
    then show ?thesis
      using without_fundamentals_keys [of feats] by blast
  qed
  show ?thesis
  proof (intro exI [of _ filter_input] conjI allI impI)
    show "build_filter_input env features_list cfg ctx pd dh = Inr filter_input" by (rule built)
    show "serialize env filter_input = Inr (user_prompt c)" by (rule sent)
    show "fst ` set (request_symbols filter_input) = set (symbols_list features_list)"
      by (simp add: req keys)
    show "\<exists>feats. features_of it = PDict feats
                    \<and> map_of (request_symbols filter_input) s =
                        Some (PDict [(''features'', PDict (without_fundamentals feats))])
                    \<and> (\<forall>k. map_of (without_fundamentals feats) k =
                              (if k = ''fundamental_data'' then None else map_of feats k))"
      if "last_candidate features_list s = Some it" for s it
      using entry [OF that] by (auto simp: req map_of_without_fundamentals)
    show "\<exists>feats. v = PDict [(''features'', PDict feats)] \<and> ''fundamental_data'' \<notin> fst ` set feats"
      if "map_of (request_symbols filter_input) s = Some v" for s v
      using that clean by (simp add: req)
  qed
qed

theorem request_features_witness:
  "\<exists>filter_input.
      build_filter_input demo_env demo_features demo_cfg None PNone None = Inr filter_input
      \<and> fst ` set (request_symbols filter_input) = {''AAPL'', ''MSFT''}
      \<and> map_of (request_symbols filter_input) ''AAPL'' =
          Some (PDict [(''features'', PDict
             [(''market_data'', PDict [(''close'', PFloat (Finite 189))]),
              (''position_state'', PDict [(''current_position_value'', PFloat (Finite 20000))])])])"
proof -
  let ?aapl = "\<lparr>symbol = Some ''AAPL'',
       features = Some (PDict
         [(''market_data'', PDict [(''close'', PFloat (Finite 189))]),
          (''position_state'', PDict [(''current_position_value'', PFloat (Finite 20000))]),
          (''fundamental_data'', PDict [(''pe_ratio'', PFloat (Finite 29))])])\<rparr>"
  from request_features [OF demo_env_run [OF demo_input]] obtain filter_input where
    built: "build_filter_input demo_env demo_features demo_cfg None PNone None = Inr filter_input"
    and keys: "fst ` set (request_symbols filter_input) = set (symbols_list demo_features)"
    and entry: "\<forall>s it. last_candidate demo_features s = Some it \<longrightarrow>
                 (\<exists>feats. features_of it = PDict feats
                    \<and> map_of (request_symbols filter_input) s =
                        Some (PDict [(''features'', PDict (without_fundamentals feats))])
                    \<and> (\<forall>k. map_of (without_fundamentals feats) k =
                              (if k = ''fundamental_data'' then None else map_of feats k)))"
    by blast
  have last: "last_candidate demo_features ''AAPL'' = Some ?aapl"
    by (simp add: demo_features_def symbol_of_def)
  have feats: "features_of ?aapl = PDict
         [(''market_data'', PDict [(''close'', PFloat (Finite 189))]),
          (''position_state'', PDict [(''current_position_value'', PFloat (Finite 20000))]),
          (''fundamental_data'', PDict [(''pe_ratio'', PFloat (Finite 29))])]"
    by (simp add: features_of_def)
  from entry last obtain fs where "features_of ?aapl = PDict fs"
    and "map_of (request_symbols filter_input) ''AAPL'' =
           Some (PDict [(''features'', PDict (without_fundamentals fs))])"
    by blast
  with feats have aapl: "map_of (request_symbols filter_input) ''AAPL'' =
          Some (PDict [(''features'', PDict
             [(''market_data'', PDict [(''close'', PFloat (Finite 189))]),
              (''position_state'', PDict [(''current_position_value'', PFloat (Finite 20000))])])])"
    by (simp add: without_fundamentals_def)
  have "set (symbols_list demo_features) = {''AAPL'', ''MSFT''}"
    by (simp add: demo_symbols)
  with built keys aapl show ?thesis
    by (intro exI [of _ filter_input]) simp
qed

section \<open>Errors that reach the caller\<close>

lemma mistyped_llm: "truthy (dict_get (cfg_or_empty mistyped_cfg) ''llm'' (PDict []))"
  by (simp add: cfg_or_empty_def mistyped_cfg_def dict_get_def)

lemma mistyped_gateway_setup:
  "set_up_gateway demo_env (cfg_or_empty mistyped_cfg) =
     Inl (ValueError (''invalid literal for int() with base 10: '' @ quoted ''many''))"
  by (simp add: set_up_gateway_def demo_env_def cfg_or_empty_def mistyped_cfg_def dict_get_def
        llm_arguments_def model_choice_def get_nested_def py_float_def py_int_def py_str_def)

lemma ranged_gateway_setup: "set_up_gateway ranged_env (cfg_or_empty demo_cfg) = Inr demo_gateway"
  by (simp add: set_up_gateway_def ranged_env_def demo_env_def demo_gateway_def cfg_or_empty_def
        demo_cfg_def dict_get_def llm_arguments_def model_choice_def get_nested_def py_float_def
        py_int_def py_str_def load_prompt_def lower_def float_of_int_def)

lemma oversized_input:
  "build_filter_input ranged_env oversized_features demo_cfg None PNone None =
     Inl (OverflowError ''int too large to convert to float'')"
  by (simp add: build_filter_input_def oversized_features_def symbols_step_def features_of_def
        symbol_of_def dict_get_def float_iadd_def float_of_int_def ranged_env_def)

text \<open>
  C6, as the claim states it, fails in its last part: with an \<^verbatim>\<open>llm\<close> section configured,
  the conversion of line 160 raises for a token limit that is not a number, and the addition
  of line 206 raises for a position value that is an integer beyond the range of a float;
  both are outside every \<^verbatim>\<open>try\<close> block, and the exception reaches the caller.
\<close>

theorem propagated_error_counterexample:
  "filter_stocks_needing_fundamental demo_env demo_features mistyped_cfg True PNone None PNone None =
     Inl (ValueError (''invalid literal for int() with base 10: '' @ quoted ''many''))
   \<and> llm_configured mistyped_cfg
   \<and> filter_stocks_needing_fundamental ranged_env oversized_features demo_cfg True PNone None PNone None =
     Inl (OverflowError ''int too large to convert to float'')
   \<and> llm_configured demo_cfg"
proof -
  from mistyped_llm mistyped_gateway_setup have config:
    "filter_stocks_needing_fundamental demo_env demo_features mistyped_cfg True PNone None PNone None =
     Inl (ValueError (''invalid literal for int() with base 10: '' @ quoted ''many''))"
    by (simp add: filter_stocks_needing_fundamental_def)
  from oversized_input have features:
    "filter_stocks_needing_fundamental ranged_env oversized_features demo_cfg True PNone None PNone None =
     Inl (OverflowError ''int too large to convert to float'')"
    by (simp add: filter_stocks_needing_fundamental_def demo_llm ranged_gateway_setup)
  from features config show ?thesis
    by (simp add: llm_configured_def demo_llm mistyped_llm)
qed

text \<open>
  C6, amended. With the classification enabled and no (or an empty) \<^verbatim>\<open>llm\<close> section the
  function raises the ValueError and returns nothing, whatever the other inputs. With an
  \<^verbatim>\<open>llm\<close> section, the first exception of the set-up of the gateway, of the assembly of
  the request, of its serialization and of the construction of the client, in this order,
  reaches the caller, and no other exception does; when these four steps succeed, the
  function returns a result after one call.
\<close>

theorem configuration_error:
  "(\<not> llm_configured cfg \<longrightarrow>
      filter_stocks_needing_fundamental env features_list cfg True rid ctx pd dh =
        Inl (ValueError ''No LLM configuration found. Use --llm-profile parameter to specify configuration.''))
   \<and> (llm_configured cfg
        \<and> filter_stocks_needing_fundamental env features_list cfg True rid ctx pd dh = Inl e \<longrightarrow>
        set_up_gateway env (cfg_or_empty cfg) = Inl e
        \<or> build_filter_input env features_list cfg ctx pd dh = Inl e
        \<or> (\<exists>filter_input. build_filter_input env features_list cfg ctx pd dh = Inr filter_input
               \<and> serialize env filter_input = Inl e)
        \<or> new_client env = Some e)
   \<and> (llm_configured cfg
        \<and> set_up_gateway env (cfg_or_empty cfg) = Inl e \<longrightarrow>
        filter_stocks_needing_fundamental env features_list cfg True rid ctx pd dh = Inl e)
   \<and> (llm_configured cfg
        \<and> set_up_gateway env (cfg_or_empty cfg) = Inr g
        \<and> build_filter_input env features_list cfg ctx pd dh = Inl e \<longrightarrow>
        filter_stocks_needing_fundamental env features_list cfg True rid ctx pd dh = Inl e)
   \<and> (llm_configured cfg
        \<and> set_up_gateway env (cfg_or_empty cfg) = Inr g
        \<and> build_filter_input env features_list cfg ctx pd dh = Inr filter_input
        \<and> serialize env filter_input = Inl e \<longrightarrow>
        filter_stocks_needing_fundamental env features_list cfg True rid ctx pd dh = Inl e)
   \<and> (llm_configured cfg
        \<and> set_up_gateway env (cfg_or_empty cfg) = Inr g
        \<and> build_filter_input env features_list cfg ctx pd dh = Inr filter_input
        \<and> serialize env filter_input = Inr prompt
        \<and> new_client env = Some e \<longrightarrow>
        filter_stocks_needing_fundamental env features_list cfg True rid ctx pd dh = Inl e)
   \<and> (llm_configured cfg
        \<and> set_up_gateway env (cfg_or_empty cfg) = Inr g
        \<and> build_filter_input env features_list cfg ctx pd dh = Inr filter_input
        \<and> serialize env filter_input = Inr prompt
        \<and> new_client env = None \<longrightarrow>
        (\<exists>r c. filter_stocks_needing_fundamental env features_list cfg True rid ctx pd dh = Inr (r, [c])))"
proof (intro conjI impI)
  assume "\<not> llm_configured cfg"
  then show "filter_stocks_needing_fundamental env features_list cfg True rid ctx pd dh =
        Inl (ValueError ''No LLM configuration found. Use --llm-profile parameter to specify configuration.'')"
    by (simp add: filter_stocks_needing_fundamental_def llm_configured_def Let_def)
next
  assume a: "llm_configured cfg
        \<and> filter_stocks_needing_fundamental env features_list cfg True rid ctx pd dh = Inl e"
  then have configured: "llm_configured cfg"
    and failed: "filter_stocks_needing_fundamental env features_list cfg True rid ctx pd dh = Inl e"
    by simp_all
  from configured have "truthy (dict_get (cfg_or_empty cfg) ''llm'' (PDict []))"
    by (simp add: llm_configured_def)
  with failed have run:
    "bind_err (set_up_gateway env (cfg_or_empty cfg)) (\<lambda>g.
       bind_err (build_filter_input env features_list cfg ctx pd dh) (\<lambda>filter_input.
         let resolved = resolve_trade_date (today env) features_list ctx
         in bind_err (serialize env filter_input) (\<lambda>prompt.
              case new_client env of
                Some e \<Rightarrow> Inl e
              | None \<Rightarrow>
                  let c = \<lparr>gateway = g, user_prompt = prompt, trade_date = resolved, run_id = rid\<rparr>
                  in Inr (validate_response (symbols_list features_list) (generate_json env c),
                          [c])))) = Inl e"
    unfolding filter_stocks_needing_fundamental_def cfg_or_empty_def Let_def by simp
  show "set_up_gateway env (cfg_or_empty cfg) = Inl e
        \<or> build_filter_input env features_list cfg ctx pd dh = Inl e
        \<or> (\<exists>filter_input. build_filter_input env features_list cfg ctx pd dh = Inr filter_input
               \<and> serialize env filter_input = Inl e)
        \<or> new_client env = Some e"
  proof (cases "set_up_gateway env (cfg_or_empty cfg)")
    case (Inl e1)
    with run show ?thesis by simp
  next
    case g: (Inr g)
    show ?thesis
    proof (cases "build_filter_input env features_list cfg ctx pd dh")
      case (Inl e2)
      with run g show ?thesis by simp
    next
      case fi: (Inr filter_input)
      show ?thesis
      proof (cases "serialize env filter_input")
        case (Inl e3)
        with run g fi show ?thesis by (simp add: Let_def)
      next
        case p: (Inr prompt)
        show ?thesis
        proof (cases "new_client env")
          case None
          with run g fi p show ?thesis by (simp add: Let_def)
        next
          case (Some e4)
          with run g fi p show ?thesis by (simp add: Let_def)
        qed
      qed
    qed
  qed
next
  assume "llm_configured cfg \<and> set_up_gateway env (cfg_or_empty cfg) = Inl e"
  then show "filter_stocks_needing_fundamental env features_list cfg True rid ctx pd dh = Inl e"
    by (simp add: filter_stocks_needing_fundamental_def llm_configured_def Let_def)
next
  assume "llm_configured cfg
        \<and> set_up_gateway env (cfg_or_empty cfg) = Inr g
        \<and> build_filter_input env features_list cfg ctx pd dh = Inl e"
  then show "filter_stocks_needing_fundamental env features_list cfg True rid ctx pd dh = Inl e"
    by (simp add: filter_stocks_needing_fundamental_def llm_configured_def Let_def)
next
  assume "llm_configured cfg
        \<and> set_up_gateway env (cfg_or_empty cfg) = Inr g
        \<and> build_filter_input env features_list cfg ctx pd dh = Inr filter_input
        \<and> serialize env filter_input = Inl e"
  then show "filter_stocks_needing_fundamental env features_list cfg True rid ctx pd dh = Inl e"
    by (simp add: filter_stocks_needing_fundamental_def llm_configured_def Let_def)
next
  assume "llm_configured cfg
        \<and> set_up_gateway env (cfg_or_empty cfg) = Inr g
        \<and> build_filter_input env features_list cfg ctx pd dh = Inr filter_input
        \<and> serialize env filter_input = Inr prompt
        \<and> new_client env = Some e"
  then show "filter_stocks_needing_fundamental env features_list cfg True rid ctx pd dh = Inl e"
    by (simp add: filter_stocks_needing_fundamental_def llm_configured_def Let_def)
next
  assume "llm_configured cfg
        \<and> set_up_gateway env (cfg_or_empty cfg) = Inr g
        \<and> build_filter_input env features_list cfg ctx pd dh = Inr filter_input
        \<and> serialize env filter_input = Inr prompt
        \<and> new_client env = None"
  then have 1: "truthy (dict_get (cfg_or_empty cfg) ''llm'' (PDict []))"
    and 2: "set_up_gateway env (cfg_or_empty cfg) = Inr g"
    and 3: "build_filter_input env features_list cfg ctx pd dh = Inr filter_input"
    and 4: "serialize env filter_input = Inr prompt"
    and 5: "new_client env = None"
    by (simp_all add: llm_configured_def cfg_or_empty_def)
  have "filter_stocks_needing_fundamental env features_list cfg True rid ctx pd dh =
           Inr (validate_response (symbols_list features_list)
                  (generate_json env
                     \<lparr>gateway = g, user_prompt = prompt,
                      trade_date = resolve_trade_date (today env) features_list ctx, run_id = rid\<rparr>),
                [\<lparr>gateway = g, user_prompt = prompt,
                  trade_date = resolve_trade_date (today env) features_list ctx, run_id = rid\<rparr>])"
    by (rule filter_enabled_run [OF 1 2 3 4 5])
  then show "\<exists>r c. filter_stocks_needing_fundamental env features_list cfg True rid ctx pd dh = Inr (r, [c])"
    by blast
qed

theorem configuration_error_witness:
  "filter_stocks_needing_fundamental demo_env demo_features None True PNone None PNone None =
     Inl (ValueError ''No LLM configuration found. Use --llm-profile parameter to specify configuration.'')
   \<and> filter_stocks_needing_fundamental demo_env demo_features (Some [(''llm'', PDict [])]) True
        PNone None PNone None =
     Inl (ValueError ''No LLM configuration found. Use --llm-profile parameter to specify configuration.'')
   \<and> filter_stocks_needing_fundamental demo_env demo_features mistyped_cfg True PNone None PNone None =
     Inl (ValueError (''invalid literal for int() with base 10: '' @ quoted ''many''))
   \<and> filter_stocks_needing_fundamental ranged_env oversized_features demo_cfg True PNone None PNone None =
     Inl (OverflowError ''int too large to convert to float'')
   \<and> (\<exists>r c. filter_stocks_needing_fundamental demo_env demo_features demo_cfg True
               PNone None PNone None = Inr (r, [c]))"
proof -
  have none: "\<not> llm_configured None"
    by (simp add: llm_configured_def cfg_or_empty_def dict_get_def)
  have empty: "\<not> llm_configured (Some [(''llm'', PDict [])])"
    by (simp add: llm_configured_def cfg_or_empty_def dict_get_def)
  have mistyped: "llm_configured mistyped_cfg
        \<and> set_up_gateway demo_env (cfg_or_empty mistyped_cfg) =
            Inl (ValueError (''invalid literal for int() with base 10: '' @ quoted ''many''))"
    by (simp add: llm_configured_def mistyped_llm mistyped_gateway_setup)
  have oversized: "llm_configured demo_cfg
        \<and> set_up_gateway ranged_env (cfg_or_empty demo_cfg) = Inr demo_gateway
        \<and> build_filter_input ranged_env oversized_features demo_cfg None PNone None =
            Inl (OverflowError ''int too large to convert to float'')"
    by (simp add: llm_configured_def demo_llm ranged_gateway_setup oversized_input)
  have ready: "llm_configured demo_cfg
        \<and> set_up_gateway demo_env (cfg_or_empty demo_cfg) = Inr demo_gateway
        \<and> build_filter_input demo_env demo_features demo_cfg None PNone None = Inr
             (PDict
   [(''portfolio_info'', PDict [(''total_assets'', PInt 100000), (''available_cash'', PFloat (Finite 80000)), (''position_value'', PFloat (Finite 20000))]),
    (''symbols'', PDict [(''AAPL'', PDict [(''features'', PDict [(''market_data'', PDict [(''close'', PFloat (Finite 189))]),
          (''position_state'', PDict [(''current_position_value'', PFloat (Finite 20000))])])]),
       (''MSFT'', PDict [(''features'', PDict [(''market_data'', PDict [(''close'', PInt 410)])])])]),
    (''history'', PDict [])])
        \<and> serialize demo_env (PDict
   [(''portfolio_info'', PDict [(''total_assets'', PInt 100000), (''available_cash'', PFloat (Finite 80000)), (''position_value'', PFloat (Finite 20000))]),
    (''symbols'', PDict [(''AAPL'', PDict [(''features'', PDict [(''market_data'', PDict [(''close'', PFloat (Finite 189))]),
          (''position_state'', PDict [(''current_position_value'', PFloat (Finite 20000))])])]),
       (''MSFT'', PDict [(''features'', PDict [(''market_data'', PDict [(''close'', PInt 410)])])])]),
    (''history'', PDict [])]) = Inr ''{}''
        \<and> new_client demo_env = None"
    by (simp add: demo_input demo_gateway_setup llm_configured_def demo_llm) (simp add: demo_env_def)
  from configuration_error [of None demo_env demo_features PNone None PNone None] none
  have 1: "filter_stocks_needing_fundamental demo_env demo_features None True PNone None PNone None =
     Inl (ValueError ''No LLM configuration found. Use --llm-profile parameter to specify configuration.'')"
    by blast
  from configuration_error [of "Some [(''llm'', PDict [])]" demo_env demo_features PNone None PNone None]
    empty
  have 2: "filter_stocks_needing_fundamental demo_env demo_features (Some [(''llm'', PDict [])]) True
        PNone None PNone None =
     Inl (ValueError ''No LLM configuration found. Use --llm-profile parameter to specify configuration.'')"
    by blast
  from configuration_error [of mistyped_cfg demo_env demo_features PNone None PNone None] mistyped
  have 3: "filter_stocks_needing_fundamental demo_env demo_features mistyped_cfg True PNone None PNone None =
     Inl (ValueError (''invalid literal for int() with base 10: '' @ quoted ''many''))"
    by blast
  from configuration_error [of demo_cfg ranged_env oversized_features PNone None PNone None] oversized
  have 4: "filter_stocks_needing_fundamental ranged_env oversized_features demo_cfg True PNone None PNone None =
     Inl (OverflowError ''int too large to convert to float'')"
    by blast
  from configuration_error [of demo_cfg demo_env demo_features PNone None PNone None] ready
  have 5: "\<exists>r c. filter_stocks_needing_fundamental demo_env demo_features demo_cfg True
               PNone None PNone None = Inr (r, [c])"
    by blast
  from 1 2 3 4 5 show ?thesis by blast
qed

end
